theory Spec2Isabelle
  imports Complex_Main
begin

section \<open>The finance store of \<^verbatim>\<open>src/app/src/store/use-app-store.ts\<close>\<close>

text \<open>
  The store is a zustand store: one state object and seventeen named operations that read it
  with \<^verbatim>\<open>get()\<close> and replace parts of it with \<^verbatim>\<open>set(...)\<close>.  Here the state is a record,
  and every operation is a function from the state to a pair: what the call returns or throws
  (\<open>Inl\<close> the thrown \<^verbatim>\<open>Error\<close>, \<open>Inr\<close> the returned value) and the state the store holds
  when the call ends.  What the operations draw from their environment is an argument:
  the value of \<^verbatim>\<open>nanoid()\<close> (\<open>newId\<close>), of \<^verbatim>\<open>new Date().toISOString()\<close> (\<open>now\<close>), of
  \<^verbatim>\<open>addMonths(new Date(), 1).toISOString()\<close> (\<open>renewal\<close>), and the batch the random
  generator of \<^verbatim>\<open>utils/imports.ts\<close> returns for a user (\<open>gen\<close>).
\<close>

subsection \<open>JavaScript values\<close>

text \<open>
  A JavaScript string is a \<^typ>\<open>string\<close>; the empty string is \<open>[]\<close>.  The two string
  methods the store calls, \<^verbatim>\<open>String.prototype.trim\<close> and
  \<^verbatim>\<open>String.prototype.toLowerCase\<close>, belong to the language runtime and not to the
  repository (they depend on the Unicode tables), so they are taken as parameters: the
  record \<open>runtime\<close>.  \<open>ascii_runtime\<close> below is one instance, used to evaluate examples.
\<close>

record runtime =
  trim :: "string \<Rightarrow> string"
  toLowerCase :: "string \<Rightarrow> string"

text \<open>
  A JavaScript number, as far as the comparison \<^verbatim>\<open>limit <= 0\<close> can tell numbers apart:
  a finite value, the two infinities, and NaN (for which every comparison is false).
\<close>

datatype number = Num real | PosInfinity | NegInfinity | NaN

text \<open>\<^verbatim>\<open>x <= 0\<close>\<close>

fun le_zero :: "number \<Rightarrow> bool" where
  "le_zero (Num r) = (r \<le> 0)"
| "le_zero PosInfinity = False"
| "le_zero NegInfinity = True"
| "le_zero NaN = False"

text \<open>\<^verbatim>\<open>x > 0\<close>\<close>

fun gt_zero :: "number \<Rightarrow> bool" where
  "gt_zero (Num r) = (0 < r)"
| "gt_zero PosInfinity = True"
| "gt_zero NegInfinity = False"
| "gt_zero NaN = False"

text \<open>
  An optional string (\<^verbatim>\<open>string | undefined\<close>) used as a condition, as in \<^verbatim>\<open>if (id)\<close>:
  \<^verbatim>\<open>undefined\<close> and the empty string are falsy, every other string is truthy.
\<close>

fun truthy :: "string option \<Rightarrow> bool" where
  "truthy None = False"
| "truthy (Some v) = (v \<noteq> [])"

text \<open>Every throw of the store is \<^verbatim>\<open>throw new Error(message)\<close>.\<close>

datatype error = Error string

subsection \<open>Entities\<close>

datatype PlanTier = Free | Premium

datatype SubscriptionStatus = Active | PastDue

datatype TransactionSource = Manual | Imported

datatype TransactionType = Income | Expense

datatype Period = Weekly | Monthly

record UserSettings =
  currency :: string
  notifications :: bool
  darkMode :: bool
  haptics :: bool

record Subscription =
  tier :: PlanTier
  renewalDate :: "string option"
  status :: SubscriptionStatus

record User =
  user_id :: string
  user_email :: string
  user_name :: string
  user_passwordHash :: string
  user_createdAt :: string
  user_subscription :: Subscription
  user_settings :: UserSettings
  user_categories :: "string list"

record Receipt =
  receipt_id :: string
  receipt_fileName :: string
  receipt_dataUrl :: string
  receipt_uploadedAt :: string

record Transaction =
  tx_id :: string
  tx_userId :: string
  tx_type :: TransactionType
  tx_category :: string
  tx_amount :: number
  tx_date :: string
  tx_notes :: "string option"
  tx_receiptId :: "string option"
  tx_source :: TransactionSource
  tx_createdAt :: string

record Budget =
  budget_id :: string
  budget_userId :: string
  budget_category :: string
  budget_limit :: number
  budget_createdAt :: string
  budget_rollover :: "bool option"
  budget_alertThreshold :: "number option"

record AnalyticsLog =
  log_id :: string
  log_userId :: string
  log_period :: Period
  log_sentAt :: string

record AppState =
  users :: "User list"
  receipts :: "Receipt list"
  transactions :: "Transaction list"
  budgets :: "Budget list"
  analyticsLog :: "AnalyticsLog list"
  currentUserId :: "string option"

text \<open>
  \<^verbatim>\<open>Partial<Omit<Transaction, 'id' | 'userId'>>\<close>: \<open>None\<close> is a key the caller left out.
  For the two optional fields a key can also be present and hold \<^verbatim>\<open>undefined\<close>
  (\<open>Some None\<close>), which the spread \<^verbatim>\<open>{ ...tx, ...updates }\<close> copies.
\<close>

record TransactionUpdates =
  upd_type :: "TransactionType option"
  upd_category :: "string option"
  upd_amount :: "number option"
  upd_date :: "string option"
  upd_notes :: "string option option"
  upd_receiptId :: "string option option"
  upd_source :: "TransactionSource option"
  upd_createdAt :: "string option"

text \<open>\<^verbatim>\<open>Partial<UserSettings>\<close>\<close>

record SettingsUpdates =
  upd_currency :: "string option"
  upd_notifications :: "bool option"
  upd_darkMode :: "bool option"
  upd_haptics :: "bool option"

subsection \<open>Constants and the initial state\<close>

definition DEFAULT_CATEGORIES :: "string list" where
  "DEFAULT_CATEGORIES =
     [''Salary'', ''Rent'', ''Food'', ''Transportation'', ''Entertainment'', ''Utilities'',
      ''Healthcare'', ''Travel'', ''Savings'']"

text \<open>\<^verbatim>\<open>DEFAULT_CATEGORIES.slice(0, 6)\<close>\<close>

definition starter_categories :: "string list" where
  "starter_categories = take 6 DEFAULT_CATEGORIES"

definition initial_state :: AppState where
  "initial_state =
     \<lparr>users = [], receipts = [], transactions = [], budgets = [], analyticsLog = [],
      currentUserId = None\<rparr>"

definition selectUserByEmail :: "runtime \<Rightarrow> User list \<Rightarrow> string \<Rightarrow> User option" where
  "selectUserByEmail rt us email =
     find (\<lambda>user. toLowerCase rt (trim rt (user_email user)) = toLowerCase rt (trim rt email)) us"

subsection \<open>Accounts\<close>

definition signUp ::
  "runtime \<Rightarrow> string \<Rightarrow> string \<Rightarrow> string \<Rightarrow> string \<Rightarrow> string \<Rightarrow> AppState
     \<Rightarrow> (error + string) \<times> AppState" where
  "signUp rt newId now email name passwordHash s =
     (case selectUserByEmail rt (users s) email of
        Some existing \<Rightarrow> (Inl (Error ''An account already exists for this email address.''), s)
      | None \<Rightarrow>
          (let newUser =
             \<lparr>user_id = newId,
              user_email = toLowerCase rt (trim rt email),
              user_name = (if trim rt name = [] then ''New Member'' else trim rt name),
              user_passwordHash = passwordHash,
              user_createdAt = now,
              user_subscription = \<lparr>tier = Free, renewalDate = None, status = Active\<rparr>,
              user_settings =
                \<lparr>currency = ''USD'', notifications = True, darkMode = False, haptics = True\<rparr>,
              user_categories = starter_categories\<rparr>
           in (Inr newId, s\<lparr>users := users s @ [newUser], currentUserId := Some newId\<rparr>)))"

definition signIn ::
  "runtime \<Rightarrow> string \<Rightarrow> string \<Rightarrow> AppState \<Rightarrow> (error + User) \<times> AppState" where
  "signIn rt email passwordHash s =
     (case selectUserByEmail rt (users s) email of
        None \<Rightarrow> (Inl (Error ''Invalid email or password.''), s)
      | Some user \<Rightarrow>
          if user_passwordHash user \<noteq> passwordHash
          then (Inl (Error ''Invalid email or password.''), s)
          else (Inr user, s\<lparr>currentUserId := Some (user_id user)\<rparr>))"

definition signOut :: "AppState \<Rightarrow> (error + unit) \<times> AppState" where
  "signOut s = (Inr (), s\<lparr>currentUserId := None\<rparr>)"

definition resetPassword ::
  "runtime \<Rightarrow> string \<Rightarrow> string \<Rightarrow> AppState \<Rightarrow> (error + unit) \<times> AppState" where
  "resetPassword rt email newPasswordHash s =
     (case selectUserByEmail rt (users s) email of
        None \<Rightarrow> (Inl (Error ''No account found for this email.''), s)
      | Some user \<Rightarrow>
          (Inr (),
           s\<lparr>users :=
               map (\<lambda>u. if user_id u = user_id user
                         then u\<lparr>user_passwordHash := newPasswordHash\<rparr> else u)
                 (users s)\<rparr>))"

subsection \<open>Receipts and transactions\<close>

definition addReceipt ::
  "string \<Rightarrow> string \<Rightarrow> string \<Rightarrow> string \<Rightarrow> AppState \<Rightarrow> (error + Receipt) \<times> AppState" where
  "addReceipt newId now fileName dataUrl s =
     (let receipt =
        \<lparr>receipt_id = newId, receipt_fileName = fileName, receipt_dataUrl = dataUrl,
         receipt_uploadedAt = now\<rparr>
      in (Inr receipt, s\<lparr>receipts := receipts s @ [receipt]\<rparr>))"

definition removeReceipt :: "string \<Rightarrow> AppState \<Rightarrow> (error + unit) \<times> AppState" where
  "removeReceipt i s =
     (Inr (), s\<lparr>receipts := filter (\<lambda>receipt. receipt_id receipt \<noteq> i) (receipts s)\<rparr>)"

definition addTransaction ::
  "string \<Rightarrow> string \<Rightarrow> string \<Rightarrow> TransactionType \<Rightarrow> string \<Rightarrow> number \<Rightarrow> string
     \<Rightarrow> string option \<Rightarrow> string option \<Rightarrow> TransactionSource option \<Rightarrow> AppState
     \<Rightarrow> (error + Transaction) \<times> AppState" where
  "addTransaction newId now userId type category amount date notes receiptId source s =
     (let transaction =
        \<lparr>tx_id = newId, tx_userId = userId, tx_type = type, tx_category = category,
         tx_amount = amount, tx_date = date, tx_notes = notes, tx_receiptId = receiptId,
         tx_source = (case source of None \<Rightarrow> Manual | Some src \<Rightarrow> src),
         tx_createdAt = now\<rparr>
      in (Inr transaction, s\<lparr>transactions := transaction # transactions s\<rparr>))"

text \<open>\<^verbatim>\<open>{ ...tx, ...updates }\<close>\<close>

definition merge_updates :: "Transaction \<Rightarrow> TransactionUpdates \<Rightarrow> Transaction" where
  "merge_updates tx updates =
     tx\<lparr>tx_type := (case upd_type updates of None \<Rightarrow> tx_type tx | Some v \<Rightarrow> v),
        tx_category := (case upd_category updates of None \<Rightarrow> tx_category tx | Some v \<Rightarrow> v),
        tx_amount := (case upd_amount updates of None \<Rightarrow> tx_amount tx | Some v \<Rightarrow> v),
        tx_date := (case upd_date updates of None \<Rightarrow> tx_date tx | Some v \<Rightarrow> v),
        tx_notes := (case upd_notes updates of None \<Rightarrow> tx_notes tx | Some v \<Rightarrow> v),
        tx_receiptId := (case upd_receiptId updates of None \<Rightarrow> tx_receiptId tx | Some v \<Rightarrow> v),
        tx_source := (case upd_source updates of None \<Rightarrow> tx_source tx | Some v \<Rightarrow> v),
        tx_createdAt := (case upd_createdAt updates of None \<Rightarrow> tx_createdAt tx | Some v \<Rightarrow> v)\<rparr>"

definition updateTransaction ::
  "string \<Rightarrow> TransactionUpdates \<Rightarrow> AppState \<Rightarrow> (error + unit) \<times> AppState" where
  "updateTransaction i updates s =
     (Inr (),
      s\<lparr>transactions :=
          map (\<lambda>tx. if tx_id tx = i then merge_updates tx updates else tx) (transactions s)\<rparr>)"

text \<open>
  Two \<^verbatim>\<open>set\<close> calls: the first, under \<^verbatim>\<open>if (transaction?.receiptId)\<close>, filters the
  receipts; the second filters the transactions of the state the first one left.
\<close>

definition removeTransaction :: "string \<Rightarrow> AppState \<Rightarrow> (error + unit) \<times> AppState" where
  "removeTransaction i s =
     (let transaction = find (\<lambda>tx. tx_id tx = i) (transactions s);
          receiptId = (case transaction of None \<Rightarrow> None | Some tx \<Rightarrow> tx_receiptId tx);
          s1 = (if truthy receiptId
                then s\<lparr>receipts := filter (\<lambda>r. Some (receipt_id r) \<noteq> receiptId) (receipts s)\<rparr>
                else s)
      in (Inr (), s1\<lparr>transactions := filter (\<lambda>tx. tx_id tx \<noteq> i) (transactions s1)\<rparr>))"

subsection \<open>Budgets\<close>

definition upsertBudget ::
  "string \<Rightarrow> string \<Rightarrow> string option \<Rightarrow> string \<Rightarrow> string \<Rightarrow> number \<Rightarrow> bool option
     \<Rightarrow> number option \<Rightarrow> AppState \<Rightarrow> (error + Budget) \<times> AppState" where
  "upsertBudget newId now i userId category limit rollover alertThreshold s =
     (if le_zero limit then (Inl (Error ''Budget limit must be greater than zero.''), s)
      else if truthy i then
        (case find (\<lambda>budget. Some (budget_id budget) = i) (budgets s) of
           None \<Rightarrow> (Inl (Error ''Budget not found.''), s)
         | Some exists \<Rightarrow>
             (let updated =
                exists\<lparr>budget_category := category,
                       budget_limit := limit,
                       budget_rollover :=
                         (case rollover of Some b \<Rightarrow> Some b | None \<Rightarrow> budget_rollover exists),
                       budget_alertThreshold :=
                         (case alertThreshold of Some n \<Rightarrow> Some n
                          | None \<Rightarrow> budget_alertThreshold exists)\<rparr>
              in (Inr updated,
                  s\<lparr>budgets :=
                      map (\<lambda>budget. if Some (budget_id budget) = i then updated else budget)
                        (budgets s)\<rparr>)))
      else
        (let budget =
           \<lparr>budget_id = newId, budget_userId = userId, budget_category = category,
            budget_limit = limit, budget_createdAt = now, budget_rollover = rollover,
            budget_alertThreshold = alertThreshold\<rparr>
         in (Inr budget, s\<lparr>budgets := budget # budgets s\<rparr>)))"

definition removeBudget :: "string \<Rightarrow> AppState \<Rightarrow> (error + unit) \<times> AppState" where
  "removeBudget i s =
     (Inr (), s\<lparr>budgets := filter (\<lambda>budget. budget_id budget \<noteq> i) (budgets s)\<rparr>)"

subsection \<open>Subscription tier and categories\<close>

definition upgradeToPremium :: "string \<Rightarrow> string \<Rightarrow> AppState \<Rightarrow> (error + unit) \<times> AppState" where
  "upgradeToPremium renewal userId s =
     (Inr (),
      s\<lparr>users :=
          map (\<lambda>user.
                 if user_id user = userId
                 then user\<lparr>user_subscription :=
                             \<lparr>tier = Premium, renewalDate = Some renewal, status = Active\<rparr>,
                           user_categories :=
                             user_categories user @
                             filter (\<lambda>category. category \<notin> set (user_categories user))
                               DEFAULT_CATEGORIES\<rparr>
                 else user)
            (users s)\<rparr>)"

definition downgradeToFree :: "string \<Rightarrow> AppState \<Rightarrow> (error + unit) \<times> AppState" where
  "downgradeToFree userId s =
     (Inr (),
      s\<lparr>users :=
          map (\<lambda>user.
                 if user_id user = userId
                 then user\<lparr>user_subscription :=
                             \<lparr>tier = Free, renewalDate = None, status = Active\<rparr>,
                           user_categories := starter_categories\<rparr>
                 else user)
            (users s),
        budgets :=
          filter (\<lambda>budget. budget_userId budget \<noteq> userId
                             \<or> budget_category budget \<in> set starter_categories)
            (budgets s),
        transactions :=
          filter (\<lambda>tx. tx_userId tx \<noteq> userId \<or> tx_category tx \<in> set starter_categories)
            (transactions s)\<rparr>)"

definition addCustomCategory ::
  "runtime \<Rightarrow> string \<Rightarrow> string \<Rightarrow> AppState \<Rightarrow> (error + unit) \<times> AppState" where
  "addCustomCategory rt userId category s =
     (let trimmed = trim rt category
      in if trimmed = [] then (Inl (Error ''Category name cannot be empty.''), s)
         else
           (Inr (),
            s\<lparr>users :=
                map (\<lambda>user.
                       if user_id user = userId \<and> trimmed \<notin> set (user_categories user)
                       then user\<lparr>user_categories := user_categories user @ [trimmed]\<rparr>
                       else user)
                  (users s)\<rparr>))"

subsection \<open>Imports, settings, analytics\<close>

text \<open>
  \<open>gen\<close> is one run of \<^verbatim>\<open>generateImportedTransactions\<close>: the function draws categories,
  amounts, dates and ids at random, so any batch may come back.
\<close>

definition importTransactions ::
  "(User \<Rightarrow> Transaction list) \<Rightarrow> string \<Rightarrow> AppState
     \<Rightarrow> (error + Transaction list) \<times> AppState" where
  "importTransactions gen userId s =
     (case find (\<lambda>u. user_id u = userId) (users s) of
        None \<Rightarrow> (Inl (Error ''User not found.''), s)
      | Some user \<Rightarrow>
          (let imported = gen user
           in (Inr imported, s\<lparr>transactions := imported @ transactions s\<rparr>)))"

text \<open>\<^verbatim>\<open>{ ...user.settings, ...settings }\<close>\<close>

definition merge_settings :: "UserSettings \<Rightarrow> SettingsUpdates \<Rightarrow> UserSettings" where
  "merge_settings old new =
     \<lparr>currency = (case upd_currency new of None \<Rightarrow> currency old | Some v \<Rightarrow> v),
      notifications = (case upd_notifications new of None \<Rightarrow> notifications old | Some v \<Rightarrow> v),
      darkMode = (case upd_darkMode new of None \<Rightarrow> darkMode old | Some v \<Rightarrow> v),
      haptics = (case upd_haptics new of None \<Rightarrow> haptics old | Some v \<Rightarrow> v)\<rparr>"

definition updateSettings ::
  "string \<Rightarrow> SettingsUpdates \<Rightarrow> AppState \<Rightarrow> (error + unit) \<times> AppState" where
  "updateSettings userId new s =
     (Inr (),
      s\<lparr>users :=
          map (\<lambda>user.
                 if user_id user = userId
                 then user\<lparr>user_settings := merge_settings (user_settings user) new\<rparr>
                 else user)
            (users s)\<rparr>)"

definition sendAnalyticsEmail ::
  "string \<Rightarrow> string \<Rightarrow> string \<Rightarrow> Period \<Rightarrow> AppState \<Rightarrow> (error + AnalyticsLog) \<times> AppState" where
  "sendAnalyticsEmail newId now userId period s =
     (let log = \<lparr>log_id = newId, log_userId = userId, log_period = period, log_sentAt = now\<rparr>
      in (Inr log, s\<lparr>analyticsLog := log # analyticsLog s\<rparr>))"

subsection \<open>The store as a transition system\<close>

text \<open>
  One constructor for each of the seventeen operations of \<^verbatim>\<open>AppActions\<close>, carrying the
  call's arguments and what the call draws from its environment.
\<close>

datatype action =
    SignUp string string string string string
  | SignIn string string
  | SignOut
  | ResetPassword string string
  | AddReceipt string string string string
  | RemoveReceipt string
  | AddTransaction string string string TransactionType string number string
      "string option" "string option" "TransactionSource option"
  | UpdateTransaction string TransactionUpdates
  | RemoveTransaction string
  | UpsertBudget string string "string option" string string number "bool option"
      "number option"
  | RemoveBudget string
  | UpgradeToPremium string string
  | DowngradeToFree string
  | AddCustomCategory string string
  | ImportTransactions "User \<Rightarrow> Transaction list" string
  | UpdateSettings string SettingsUpdates
  | SendAnalyticsEmail string string string Period

text \<open>The state the store holds after a call, whether the call returned or threw.\<close>

fun exec :: "runtime \<Rightarrow> action \<Rightarrow> AppState \<Rightarrow> AppState" where
  "exec rt (SignUp newId now email name passwordHash) s =
     snd (signUp rt newId now email name passwordHash s)"
| "exec rt (SignIn email passwordHash) s = snd (signIn rt email passwordHash s)"
| "exec rt SignOut s = snd (signOut s)"
| "exec rt (ResetPassword email newPasswordHash) s =
     snd (resetPassword rt email newPasswordHash s)"
| "exec rt (AddReceipt newId now fileName dataUrl) s =
     snd (addReceipt newId now fileName dataUrl s)"
| "exec rt (RemoveReceipt i) s = snd (removeReceipt i s)"
| "exec rt (AddTransaction newId now userId type category amount date notes receiptId source) s =
     snd (addTransaction newId now userId type category amount date notes receiptId source s)"
| "exec rt (UpdateTransaction i updates) s = snd (updateTransaction i updates s)"
| "exec rt (RemoveTransaction i) s = snd (removeTransaction i s)"
| "exec rt (UpsertBudget newId now i userId category limit rollover alertThreshold) s =
     snd (upsertBudget newId now i userId category limit rollover alertThreshold s)"
| "exec rt (RemoveBudget i) s = snd (removeBudget i s)"
| "exec rt (UpgradeToPremium renewal userId) s = snd (upgradeToPremium renewal userId s)"
| "exec rt (DowngradeToFree userId) s = snd (downgradeToFree userId s)"
| "exec rt (AddCustomCategory userId category) s = snd (addCustomCategory rt userId category s)"
| "exec rt (ImportTransactions gen userId) s = snd (importTransactions gen userId s)"
| "exec rt (UpdateSettings userId new) s = snd (updateSettings userId new s)"
| "exec rt (SendAnalyticsEmail newId now userId period) s =
     snd (sendAnalyticsEmail newId now userId period s)"

text \<open>
  The reachable states: the store starts empty and changes only through its operations.
  (The persistence wrapper writes the state after every change and reads it back at start, so
  it adds no state of its own.)
\<close>

inductive reachable :: "runtime \<Rightarrow> AppState \<Rightarrow> bool" for rt :: runtime where
  reachable_init: "reachable rt initial_state"
| reachable_step: "reachable rt s \<Longrightarrow> reachable rt (exec rt a s)"

text \<open>The state after a list of calls, made one after the other on the empty store.\<close>

definition run :: "runtime \<Rightarrow> action list \<Rightarrow> AppState" where
  "run rt as = foldl (\<lambda>s a. exec rt a s) initial_state as"

text \<open>
  The relation \<open>reachable\<close> lets \<^verbatim>\<open>nanoid()\<close> return any string.  The library returns
  strings of 21 characters, never the empty one.  \<open>nanoid_ok\<close> says so of the id a call
  draws, and \<open>reachable_nanoid\<close> keeps the states the store reaches under such draws:
  the states the store can hold.  (The ids inside an import batch are left arbitrary.)
\<close>

fun nanoid_ok :: "action \<Rightarrow> bool" where
  "nanoid_ok (SignUp newId now email name passwordHash) = (newId \<noteq> [])"
| "nanoid_ok (AddReceipt newId now fileName dataUrl) = (newId \<noteq> [])"
| "nanoid_ok (AddTransaction newId now userId type category amount date notes receiptId source) =
     (newId \<noteq> [])"
| "nanoid_ok (UpsertBudget newId now i userId category limit rollover alertThreshold) =
     (newId \<noteq> [])"
| "nanoid_ok (SendAnalyticsEmail newId now userId period) = (newId \<noteq> [])"
| "nanoid_ok a = True"

inductive reachable_nanoid :: "runtime \<Rightarrow> AppState \<Rightarrow> bool" for rt :: runtime where
  reachable_nanoid_init: "reachable_nanoid rt initial_state"
| reachable_nanoid_step:
    "reachable_nanoid rt s \<Longrightarrow> nanoid_ok a \<Longrightarrow> reachable_nanoid rt (exec rt a s)"

subsection \<open>A runtime for examples\<close>

text \<open>
  \<open>ascii_runtime\<close> trims the six ASCII white-space characters and lower-cases the letters
  \<open>A\<close> to \<open>Z\<close>, which is what the two JavaScript methods do on ASCII strings.  The
  theorems below hold for every runtime; this one only serves to run the store on examples.
\<close>

definition ascii_space :: "char \<Rightarrow> bool" where
  "ascii_space c = (c \<in> set [CHR '' '', CHR 0x09, CHR 0x0A, CHR 0x0B, CHR 0x0C, CHR 0x0D])"

definition ascii_trim :: "string \<Rightarrow> string" where
  "ascii_trim str = rev (dropWhile ascii_space (rev (dropWhile ascii_space str)))"

definition ascii_lower_char :: "char \<Rightarrow> char" where
  "ascii_lower_char c =
     (case map_of (zip ''ABCDEFGHIJKLMNOPQRSTUVWXYZ'' ''abcdefghijklmnopqrstuvwxyz'') c of
        None \<Rightarrow> c
      | Some l \<Rightarrow> l)"

definition ascii_runtime :: runtime where
  "ascii_runtime = \<lparr>trim = ascii_trim, toLowerCase = map ascii_lower_char\<rparr>"

subsection \<open>Predicates on states\<close>

text \<open>Every user record of the state satisfies \<open>Q\<close>.\<close>

definition users_all :: "(User \<Rightarrow> bool) \<Rightarrow> AppState \<Rightarrow> bool" where
  "users_all Q s = (\<forall>u\<in>set (users s). Q u)"

text \<open>A user on the free tier has every starter category in the category list.\<close>

definition keeps_starters :: "User \<Rightarrow> bool" where
  "keeps_starters u =
     (tier (user_subscription u) = Free \<longrightarrow> set starter_categories \<subseteq> set (user_categories u))"

definition free_users_keep_starters :: "AppState \<Rightarrow> bool" where
  "free_users_keep_starters s = users_all keeps_starters s"

subsection \<open>Example data\<close>

text \<open>
  A state with two users, Ann on the premium tier with the custom category \<open>Pets\<close> and Bob
  on the free tier, one receipt, three transactions and three budgets.
\<close>

definition default_settings :: UserSettings where
  "default_settings =
     \<lparr>currency = ''USD'', notifications = True, darkMode = False, haptics = True\<rparr>"

definition example_ann :: User where
  "example_ann =
     \<lparr>user_id = ''u1'', user_email = ''ann@x.com'', user_name = ''Ann'', user_passwordHash = ''h1'',
      user_createdAt = ''t0'',
      user_subscription = \<lparr>tier = Premium, renewalDate = Some ''t9'', status = Active\<rparr>,
      user_settings = default_settings,
      user_categories =
        [''Salary'', ''Rent'', ''Food'', ''Transportation'', ''Entertainment'', ''Utilities'',
         ''Pets'']\<rparr>"

definition example_bob :: User where
  "example_bob =
     \<lparr>user_id = ''u2'', user_email = ''bob@x.com'', user_name = ''Bob'', user_passwordHash = ''h2'',
      user_createdAt = ''t1'',
      user_subscription = \<lparr>tier = Free, renewalDate = None, status = Active\<rparr>,
      user_settings = default_settings,
      user_categories =
        [''Salary'', ''Rent'', ''Food'', ''Transportation'', ''Entertainment'', ''Utilities'']\<rparr>"

definition example_receipt :: "string \<Rightarrow> Receipt" where
  "example_receipt i =
     \<lparr>receipt_id = i, receipt_fileName = ''vet.png'', receipt_dataUrl = ''data:vet'',
      receipt_uploadedAt = ''t2''\<rparr>"

definition example_tx :: "string \<Rightarrow> string \<Rightarrow> string \<Rightarrow> string option \<Rightarrow> Transaction" where
  "example_tx i userId category receiptId =
     \<lparr>tx_id = i, tx_userId = userId, tx_type = Expense, tx_category = category,
      tx_amount = Num 12.5, tx_date = ''2024-01-05'', tx_notes = None, tx_receiptId = receiptId,
      tx_source = Manual, tx_createdAt = ''t3''\<rparr>"

definition example_budget ::
  "string \<Rightarrow> string \<Rightarrow> string \<Rightarrow> bool option \<Rightarrow> number option \<Rightarrow> Budget" where
  "example_budget i userId category rollover alertThreshold =
     \<lparr>budget_id = i, budget_userId = userId, budget_category = category, budget_limit = Num 500,
      budget_createdAt = ''t4'', budget_rollover = rollover,
      budget_alertThreshold = alertThreshold\<rparr>"

definition example_state :: AppState where
  "example_state =
     \<lparr>users = [example_ann, example_bob],
      receipts = [example_receipt ''r1''],
      transactions =
        [example_tx ''x1'' ''u1'' ''Pets'' (Some ''r1''),
         example_tx ''x2'' ''u1'' ''Food'' None,
         example_tx ''x3'' ''u2'' ''Pets'' None],
      budgets =
        [example_budget ''b1'' ''u1'' ''Pets'' (Some True) (Some (Num 80)),
         example_budget ''b2'' ''u1'' ''Food'' None None,
         example_budget ''b3'' ''u2'' ''Travel'' None None],
      analyticsLog = [],
      currentUserId = Some ''u1''\<rparr>"

text \<open>
  Three short histories of the store.  In the first a receipt is uploaded and three
  transactions are added: \<open>x1\<close> with that receipt, \<open>x2\<close> with none, \<open>x3\<close> with the empty
  string as receipt id.  In the second Ann creates two budgets.  In the third she signs up
  and adds the category \<open>Pets\<close>.
\<close>

definition receipts_history :: "action list" where
  "receipts_history =
     [AddReceipt ''r1'' ''t2'' ''vet.png'' ''data:vet'',
      AddTransaction ''x1'' ''t3'' ''u1'' Expense ''Pets'' (Num 12.5) ''2024-01-05'' None
        (Some ''r1'') None,
      AddTransaction ''x2'' ''t3'' ''u1'' Expense ''Food'' (Num 12.5) ''2024-01-05'' None
        None None,
      AddTransaction ''x3'' ''t3'' ''u2'' Expense ''Pets'' (Num 12.5) ''2024-01-05'' None
        (Some []) None]"

definition budgets_history :: "action list" where
  "budgets_history =
     [UpsertBudget ''b2'' ''t4'' None ''u1'' ''Food'' (Num 500) None None,
      UpsertBudget ''b1'' ''t4'' None ''u1'' ''Pets'' (Num 500) (Some True) (Some (Num 80))]"

definition categories_history :: "action list" where
  "categories_history =
     [SignUp ''u1'' ''t0'' ''ann@x.com'' ''Ann'' ''h1'', AddCustomCategory ''u1'' ''Pets'']"

subsection \<open>Matching emails\<close>

text \<open>
  The comparison \<open>selectUserByEmail\<close> makes: the stored email and the given one are equal
  once both are trimmed and lower-cased.
\<close>

definition matches_email :: "runtime \<Rightarrow> string \<Rightarrow> User \<Rightarrow> bool" where
  "matches_email rt email u =
     (toLowerCase rt (trim rt (user_email u)) = toLowerCase rt (trim rt email))"

section \<open>Properties\<close>

subsection \<open>Invariants of the user list\<close>

lemma ball_map_if:
  assumes "\<forall>u\<in>set us. Q u" and "\<And>u. P u \<Longrightarrow> Q u \<Longrightarrow> Q (f u)"
  shows "\<forall>u\<in>set (map (\<lambda>u. if P u then f u else u) us). Q u"
  using assms by (induction us) auto

lemma users_all_map_if:
  assumes "users_all Q s"
    and "users s' = map (\<lambda>u. if P u then f u else u) (users s)"
    and "\<And>u. P u \<Longrightarrow> Q u \<Longrightarrow> Q (f u)"
  shows "users_all Q s'"
  using assms(1) unfolding users_all_def assms(2)
  by (rule ball_map_if) (rule assms(3))

lemma users_all_same:
  "users s' = users s \<Longrightarrow> users_all Q s \<Longrightarrow> users_all Q s'"
  by (simp add: users_all_def)

text \<open>
  A property of user records is kept by every operation when it holds of a record with the
  sign-up subscription and the starter categories, depends on the subscription and the
  categories only, and is kept by the two ways the store extends a category list.
\<close>

lemma exec_users_all:
  assumes inv: "users_all Q s"
    and fresh: "\<And>u. user_subscription u = \<lparr>tier = Free, renewalDate = None, status = Active\<rparr>
                  \<Longrightarrow> user_categories u = starter_categories \<Longrightarrow> Q u"
    and frame: "\<And>u v. Q u \<Longrightarrow> user_subscription v = user_subscription u
                  \<Longrightarrow> user_categories v = user_categories u \<Longrightarrow> Q v"
    and upgrade: "\<And>u r. Q u \<Longrightarrow>
                  Q (u\<lparr>user_subscription := \<lparr>tier = Premium, renewalDate = r, status = Active\<rparr>,
                       user_categories :=
                         user_categories u @
                         filter (\<lambda>c. c \<notin> set (user_categories u)) DEFAULT_CATEGORIES\<rparr>)"
    and add: "\<And>u c. Q u \<Longrightarrow> c \<notin> set (user_categories u)
                  \<Longrightarrow> Q (u\<lparr>user_categories := user_categories u @ [c]\<rparr>)"
  shows "users_all Q (exec rt a s)"
proof (cases a)
  case (SignUp newId now email name passwordHash)
  show ?thesis
  proof (cases "selectUserByEmail rt (users s) email")
    case None
    with inv show ?thesis
      by (simp add: SignUp signUp_def users_all_def fresh)
  next
    case (Some existing)
    with inv show ?thesis by (simp add: SignUp signUp_def)
  qed
next
  case (SignIn email passwordHash)
  show ?thesis
    by (rule users_all_same [OF _ inv]) (simp add: SignIn signIn_def split: option.splits)
next
  case SignOut
  show ?thesis by (rule users_all_same [OF _ inv]) (simp add: SignOut signOut_def)
next
  case (ResetPassword email newPasswordHash)
  show ?thesis
  proof (cases "selectUserByEmail rt (users s) email")
    case None
    with inv show ?thesis by (simp add: ResetPassword resetPassword_def)
  next
    case (Some user)
    show ?thesis
    proof (rule users_all_map_if [OF inv, where P = "\<lambda>u. user_id u = user_id user"
          and f = "\<lambda>u. u\<lparr>user_passwordHash := newPasswordHash\<rparr>"])
      show "users (exec rt a s) =
        map (\<lambda>u. if user_id u = user_id user then u\<lparr>user_passwordHash := newPasswordHash\<rparr> else u)
          (users s)"
        by (simp add: ResetPassword resetPassword_def Some)
    qed (erule frame, simp_all)
  qed
next
  case (AddReceipt newId now fileName dataUrl)
  show ?thesis
    by (rule users_all_same [OF _ inv]) (simp add: AddReceipt addReceipt_def Let_def)
next
  case (RemoveReceipt i)
  show ?thesis by (rule users_all_same [OF _ inv]) (simp add: RemoveReceipt removeReceipt_def)
next
  case (AddTransaction newId now userId ty category amount date nts receiptId source)
  show ?thesis
    by (rule users_all_same [OF _ inv]) (simp add: AddTransaction addTransaction_def Let_def)
next
  case (UpdateTransaction i updates)
  show ?thesis
    by (rule users_all_same [OF _ inv]) (simp add: UpdateTransaction updateTransaction_def)
next
  case (RemoveTransaction i)
  show ?thesis
    by (rule users_all_same [OF _ inv]) (simp add: RemoveTransaction removeTransaction_def Let_def)
next
  case (UpsertBudget newId now i userId category limit rollover alertThreshold)
  show ?thesis
    by (rule users_all_same [OF _ inv])
      (simp add: UpsertBudget upsertBudget_def Let_def split: option.splits)
next
  case (RemoveBudget i)
  show ?thesis by (rule users_all_same [OF _ inv]) (simp add: RemoveBudget removeBudget_def)
next
  case (UpgradeToPremium renewal userId)
  show ?thesis
    by (rule users_all_map_if [OF inv, where P = "\<lambda>u. user_id u = userId"
          and f = "\<lambda>u. u\<lparr>user_subscription :=
                            \<lparr>tier = Premium, renewalDate = Some renewal, status = Active\<rparr>,
                          user_categories :=
                            user_categories u @
                            filter (\<lambda>c. c \<notin> set (user_categories u)) DEFAULT_CATEGORIES\<rparr>"])
      (simp add: UpgradeToPremium upgradeToPremium_def, erule upgrade)
next
  case (DowngradeToFree userId)
  show ?thesis
    by (rule users_all_map_if [OF inv, where P = "\<lambda>u. user_id u = userId"
          and f = "\<lambda>u. u\<lparr>user_subscription :=
                            \<lparr>tier = Free, renewalDate = None, status = Active\<rparr>,
                          user_categories := starter_categories\<rparr>"])
      (simp add: DowngradeToFree downgradeToFree_def, rule fresh, simp_all)
next
  case (AddCustomCategory userId category)
  show ?thesis
  proof (cases "trim rt category = []")
    case True
    with inv show ?thesis by (simp add: AddCustomCategory addCustomCategory_def)
  next
    case False
    show ?thesis
      by (rule users_all_map_if [OF inv,
            where P = "\<lambda>u. user_id u = userId \<and> trim rt category \<notin> set (user_categories u)"
            and f = "\<lambda>u. u\<lparr>user_categories := user_categories u @ [trim rt category]\<rparr>"])
        (simp add: AddCustomCategory addCustomCategory_def False Let_def, simp add: add)
  qed
next
  case (ImportTransactions gen userId)
  show ?thesis
    by (rule users_all_same [OF _ inv])
      (simp add: ImportTransactions importTransactions_def Let_def split: option.splits)
next
  case (UpdateSettings userId new)
  show ?thesis
    by (rule users_all_map_if [OF inv, where P = "\<lambda>u. user_id u = userId"
          and f = "\<lambda>u. u\<lparr>user_settings := merge_settings (user_settings u) new\<rparr>"])
      (simp add: UpdateSettings updateSettings_def, erule frame, simp_all)
next
  case (SendAnalyticsEmail newId now userId period)
  show ?thesis
    by (rule users_all_same [OF _ inv])
      (simp add: SendAnalyticsEmail sendAnalyticsEmail_def Let_def)
qed

lemma reachable_users_all:
  assumes "reachable rt s"
    and fresh: "\<And>u. user_subscription u = \<lparr>tier = Free, renewalDate = None, status = Active\<rparr>
                  \<Longrightarrow> user_categories u = starter_categories \<Longrightarrow> Q u"
    and frame: "\<And>u v. Q u \<Longrightarrow> user_subscription v = user_subscription u
                  \<Longrightarrow> user_categories v = user_categories u \<Longrightarrow> Q v"
    and upgrade: "\<And>u r. Q u \<Longrightarrow>
                  Q (u\<lparr>user_subscription := \<lparr>tier = Premium, renewalDate = r, status = Active\<rparr>,
                       user_categories :=
                         user_categories u @
                         filter (\<lambda>c. c \<notin> set (user_categories u)) DEFAULT_CATEGORIES\<rparr>)"
    and add: "\<And>u c. Q u \<Longrightarrow> c \<notin> set (user_categories u)
                  \<Longrightarrow> Q (u\<lparr>user_categories := user_categories u @ [c]\<rparr>)"
  shows "users_all Q s"
  using assms(1)
proof (induction rule: reachable.induct)
  case reachable_init
  show ?case by (simp add: users_all_def initial_state_def)
next
  case (reachable_step s a)
  from reachable_step.IH show ?case
    by (rule exec_users_all) (fact fresh, erule (2) frame, erule upgrade, erule (1) add)
qed

lemma keeps_starters_exec:
  "users_all keeps_starters s \<Longrightarrow> users_all keeps_starters (exec rt a s)"
  by (erule exec_users_all) (auto simp: keeps_starters_def)

lemma keeps_starters_reachable: "reachable rt s \<Longrightarrow> users_all keeps_starters s"
  by (erule reachable_users_all) (auto simp: keeps_starters_def)

text \<open>The reachable states are the states after a list of calls.\<close>

lemma reachable_run: "reachable rt (run rt as)"
proof (induction as rule: rev_induct)
  case Nil
  show ?case by (simp add: run_def reachable_init)
next
  case (snoc a as)
  from reachable_step [OF snoc.IH, of a] show ?case by (simp add: run_def)
qed

lemma reachable_iff_run: "reachable rt s \<longleftrightarrow> (\<exists>as. s = run rt as)"
proof
  assume "reachable rt s"
  then show "\<exists>as. s = run rt as"
  proof (induction rule: reachable.induct)
    case reachable_init
    have "initial_state = run rt []" by (simp add: run_def)
    then show ?case ..
  next
    case (reachable_step s a)
    from reachable_step.IH obtain as where "s = run rt as" ..
    then have "exec rt a s = run rt (as @ [a])" by (simp add: run_def)
    then show ?case ..
  qed
next
  assume "\<exists>as. s = run rt as"
  then show "reachable rt s" by (auto simp: reachable_run)
qed

subsection \<open>C1: the starter categories of free-tier users\<close>

text \<open>
  C1.  In every state the store can reach from the empty one, the category list of every
  user on the free tier contains each of the first six default categories.  Every one of
  the seventeen operations keeps this true, from any state where it holds, whether the call
  returns or throws.  \<open>downgradeToFree\<close> keeps the user list as long as it was and leaves
  every record with the given id with exactly the first six defaults as its categories.
\<close>

theorem free_tier_keeps_starter_categories:
  "(reachable rt s \<longrightarrow> free_users_keep_starters s) \<and>
   (free_users_keep_starters s \<longrightarrow> free_users_keep_starters (exec rt a s)) \<and>
   length (users (snd (downgradeToFree userId s))) = length (users s) \<and>
   (\<forall>k<length (users s).
      user_id (users s ! k) = userId \<longrightarrow>
      user_id (users (snd (downgradeToFree userId s)) ! k) = userId \<and>
      user_categories (users (snd (downgradeToFree userId s)) ! k) = take 6 DEFAULT_CATEGORIES)"
  by (simp add: free_users_keep_starters_def keeps_starters_exec keeps_starters_reachable
      downgradeToFree_def starter_categories_def)

lemmas example_defs =
  signUp_def selectUserByEmail_def initial_state_def ascii_runtime_def ascii_trim_def
  ascii_space_def ascii_lower_char_def DEFAULT_CATEGORIES_def starter_categories_def Let_def

text \<open>
  Ann signs up (a state the store reaches in one step), adds the category \<open>Pets\<close> while on
  the free tier, and is downgraded.
\<close>

theorem free_tier_keeps_starter_categories_witness:
  "reachable ascii_runtime
     (exec ascii_runtime (SignUp ''u1'' ''t0'' '' Ann@X.com '' ''Ann'' ''h1'') initial_state) \<and>
   free_users_keep_starters
     (exec ascii_runtime (SignUp ''u1'' ''t0'' '' Ann@X.com '' ''Ann'' ''h1'') initial_state) \<and>
   free_users_keep_starters
     (exec ascii_runtime (AddCustomCategory ''u1'' '' Pets '')
        (exec ascii_runtime (SignUp ''u1'' ''t0'' '' Ann@X.com '' ''Ann'' ''h1'') initial_state)) \<and>
   user_id
     (users (exec ascii_runtime (SignUp ''u1'' ''t0'' '' Ann@X.com '' ''Ann'' ''h1'') initial_state)
        ! 0) = ''u1'' \<and>
   user_categories
     (users
        (snd (downgradeToFree ''u1''
           (exec ascii_runtime (SignUp ''u1'' ''t0'' '' Ann@X.com '' ''Ann'' ''h1'')
              initial_state))) ! 0) =
     [''Salary'', ''Rent'', ''Food'', ''Transportation'', ''Entertainment'', ''Utilities'']"
  using free_tier_keeps_starter_categories
      [of ascii_runtime
        "exec ascii_runtime (SignUp ''u1'' ''t0'' '' Ann@X.com '' ''Ann'' ''h1'') initial_state"
        "AddCustomCategory ''u1'' '' Pets ''" "''u1''"]
    reachable_step [OF reachable_init, of ascii_runtime
        "SignUp ''u1'' ''t0'' '' Ann@X.com '' ''Ann'' ''h1''"]
  by (simp add: example_defs)

lemmas example_state_defs =
  example_state_def example_ann_def example_bob_def example_receipt_def example_tx_def
  example_budget_def default_settings_def DEFAULT_CATEGORIES_def

subsection \<open>C2: what \<open>downgradeToFree\<close> does\<close>

text \<open>
  C2.  \<open>downgradeToFree userId\<close> never throws.  It keeps the user list as long as it was;
  every record with the given id gets the subscription free/active with no renewal date and
  exactly the first six defaults as categories, and every other record stays as it was.
  From the budgets and from the transactions it removes exactly the entries that belong to
  that user and whose category is not one of the first six defaults, keeping the order of the
  rest; the budgets and transactions of every other user are the same lists as before, and
  receipts, analytics log and current user are untouched.
\<close>

theorem downgradeToFree_effect:
  "fst (downgradeToFree userId s) = Inr () \<and>
   length (users (snd (downgradeToFree userId s))) = length (users s) \<and>
   (\<forall>k<length (users s).
      users (snd (downgradeToFree userId s)) ! k =
        (if user_id (users s ! k) = userId
         then (users s ! k)
                \<lparr>user_subscription := \<lparr>tier = Free, renewalDate = None, status = Active\<rparr>,
                 user_categories := take 6 DEFAULT_CATEGORIES\<rparr>
         else users s ! k)) \<and>
   budgets (snd (downgradeToFree userId s)) =
     filter (\<lambda>b. \<not> (budget_userId b = userId \<and>
                      budget_category b \<notin> set (take 6 DEFAULT_CATEGORIES)))
       (budgets s) \<and>
   transactions (snd (downgradeToFree userId s)) =
     filter (\<lambda>t. \<not> (tx_userId t = userId \<and> tx_category t \<notin> set (take 6 DEFAULT_CATEGORIES)))
       (transactions s) \<and>
   filter (\<lambda>b. budget_userId b \<noteq> userId) (budgets (snd (downgradeToFree userId s))) =
     filter (\<lambda>b. budget_userId b \<noteq> userId) (budgets s) \<and>
   filter (\<lambda>t. tx_userId t \<noteq> userId) (transactions (snd (downgradeToFree userId s))) =
     filter (\<lambda>t. tx_userId t \<noteq> userId) (transactions s) \<and>
   receipts (snd (downgradeToFree userId s)) = receipts s \<and>
   analyticsLog (snd (downgradeToFree userId s)) = analyticsLog s \<and>
   currentUserId (snd (downgradeToFree userId s)) = currentUserId s"
  by (auto simp: downgradeToFree_def starter_categories_def intro!: filter_cong)

text \<open>
  Ann is downgraded: she loses \<open>Pets\<close>, her \<open>Pets\<close> budget and her \<open>Pets\<close> transaction; Bob's
  \<open>Travel\<close> budget and \<open>Pets\<close> transaction stay.
\<close>

theorem downgradeToFree_effect_witness:
  "users (snd (downgradeToFree ''u1'' example_state)) ! 0 =
     example_ann\<lparr>user_subscription := \<lparr>tier = Free, renewalDate = None, status = Active\<rparr>,
                 user_categories :=
                   [''Salary'', ''Rent'', ''Food'', ''Transportation'', ''Entertainment'',
                    ''Utilities'']\<rparr> \<and>
   users (snd (downgradeToFree ''u1'' example_state)) ! 1 = example_bob \<and>
   budgets (snd (downgradeToFree ''u1'' example_state)) =
     [example_budget ''b2'' ''u1'' ''Food'' None None,
      example_budget ''b3'' ''u2'' ''Travel'' None None] \<and>
   transactions (snd (downgradeToFree ''u1'' example_state)) =
     [example_tx ''x2'' ''u1'' ''Food'' None, example_tx ''x3'' ''u2'' ''Pets'' None]"
  using downgradeToFree_effect [of "''u1''" example_state]
  by (simp add: example_state_defs)

subsection \<open>C4: a limit that is zero or negative\<close>

text \<open>
  C4.  When the limit is zero or negative (\<open>le_zero\<close>: a finite number at most zero, or
  minus infinity), \<open>upsertBudget\<close> throws the validation error and the store is the state it
  was: nothing is appended to the budget list and no budget is changed, whatever the other
  arguments are.
\<close>

theorem upsertBudget_rejects_nonpositive_limit:
  "le_zero limit \<Longrightarrow>
   upsertBudget newId now i userId category limit rollover alertThreshold s =
     (Inl (Error ''Budget limit must be greater than zero.''), s)"
  by (simp add: upsertBudget_def)

theorem upsertBudget_rejects_nonpositive_limit_witness:
  "le_zero (Num 0) \<and> le_zero (Num (- 5)) \<and>
   upsertBudget ''b9'' ''t9'' None ''u1'' ''Food'' (Num 0) None None example_state =
     (Inl (Error ''Budget limit must be greater than zero.''), example_state) \<and>
   upsertBudget ''b9'' ''t9'' (Some ''b2'') ''u1'' ''Food'' (Num (- 5)) (Some True) None
       example_state =
     (Inl (Error ''Budget limit must be greater than zero.''), example_state)"
  using upsertBudget_rejects_nonpositive_limit
      [of "Num 0" "''b9''" "''t9''" None "''u1''" "''Food''" None None example_state]
    upsertBudget_rejects_nonpositive_limit
      [of "Num (- 5)" "''b9''" "''t9''" "Some ''b2''" "''u1''" "''Food''" "Some True" None
        example_state]
  by simp

subsection \<open>Lists: the first match\<close>

lemma find_first_match:
  "xs = before @ x # after \<Longrightarrow> \<forall>y\<in>set before. \<not> P y \<Longrightarrow> P x \<Longrightarrow> find P xs = Some x"
  by (induction before arbitrary: xs) auto

lemma find_no_match: "\<forall>y\<in>set xs. \<not> P y \<Longrightarrow> find P xs = None"
  by (induction xs) auto

lemma map_if_no_match: "\<forall>y\<in>set xs. \<not> P y \<Longrightarrow> map (\<lambda>y. if P y then f y else y) xs = xs"
  by (induction xs) auto

lemma gt_zero_not_le_zero: "gt_zero n \<Longrightarrow> \<not> le_zero n"
  by (cases n) auto

subsection \<open>The three paths of \<open>upsertBudget\<close>\<close>

lemma upsertBudget_update:
  assumes nle: "\<not> le_zero limit" and ne: "i \<noteq> []"
    and split: "budgets s = before @ b # after"
    and first: "\<forall>x\<in>set before. budget_id x \<noteq> i" "budget_id b = i"
  shows
    "upsertBudget newId now (Some i) userId category limit rollover alertThreshold s =
       (Inr (b\<lparr>budget_category := category, budget_limit := limit,
               budget_rollover := (if rollover = None then budget_rollover b else rollover),
               budget_alertThreshold :=
                 (if alertThreshold = None then budget_alertThreshold b else alertThreshold)\<rparr>),
        s\<lparr>budgets :=
            before @
            b\<lparr>budget_category := category, budget_limit := limit,
              budget_rollover := (if rollover = None then budget_rollover b else rollover),
              budget_alertThreshold :=
                (if alertThreshold = None then budget_alertThreshold b else alertThreshold)\<rparr> #
            map (\<lambda>x. if budget_id x = i
                      then b\<lparr>budget_category := category, budget_limit := limit,
                             budget_rollover :=
                               (if rollover = None then budget_rollover b else rollover),
                             budget_alertThreshold :=
                               (if alertThreshold = None then budget_alertThreshold b
                                else alertThreshold)\<rparr>
                      else x) after\<rparr>)"
proof -
  let ?u = "b\<lparr>budget_category := category, budget_limit := limit,
              budget_rollover := (if rollover = None then budget_rollover b else rollover),
              budget_alertThreshold :=
                (if alertThreshold = None then budget_alertThreshold b else alertThreshold)\<rparr>"
  have f: "find (\<lambda>budget. budget_id budget = i) (budgets s) = Some b"
    using split first
    by (intro find_first_match [where before = before and after = after]) simp_all
  have m: "map (\<lambda>x. if budget_id x = i then ?u else x) (budgets s) =
           before @ ?u # map (\<lambda>x. if budget_id x = i then ?u else x) after"
    using split first by (simp add: map_if_no_match)
  show ?thesis
    unfolding m [symmetric]
    by (cases rollover; cases alertThreshold)
      (simp_all add: upsertBudget_def nle f ne Let_def del: map_append)
qed

lemma upsertBudget_not_found:
  assumes "\<not> le_zero limit" and "i \<noteq> []" and "\<forall>x\<in>set (budgets s). budget_id x \<noteq> i"
  shows "upsertBudget newId now (Some i) userId category limit rollover alertThreshold s =
           (Inl (Error ''Budget not found.''), s)"
proof -
  have "find (\<lambda>budget. budget_id budget = i) (budgets s) = None"
    using assms(3) by (simp add: find_no_match)
  with assms(1,2) show ?thesis by (simp add: upsertBudget_def)
qed

lemma upsertBudget_create:
  assumes "\<not> le_zero limit" and "oi = None \<or> oi = Some []"
  shows "upsertBudget newId now oi userId category limit rollover alertThreshold s =
          (Inr \<lparr>budget_id = newId, budget_userId = userId, budget_category = category,
                budget_limit = limit, budget_createdAt = now, budget_rollover = rollover,
                budget_alertThreshold = alertThreshold\<rparr>,
           s\<lparr>budgets :=
               \<lparr>budget_id = newId, budget_userId = userId, budget_category = category,
                budget_limit = limit, budget_createdAt = now, budget_rollover = rollover,
                budget_alertThreshold = alertThreshold\<rparr> # budgets s\<rparr>)"
proof -
  from assms(2) have "\<not> truthy oi" by auto
  with assms(1) show ?thesis by (simp add: upsertBudget_def Let_def)
qed

subsection \<open>The ids of the records the store holds\<close>

text \<open>
  When \<^verbatim>\<open>nanoid()\<close> never returns the empty string, no receipt and no budget of the store has
  the empty string as id: receipts get their id in \<open>addReceipt\<close> only, budgets in the create
  path of \<open>upsertBudget\<close> only, and the other operations keep or remove records.
\<close>

lemma reachable_nanoid_reachable: "reachable_nanoid rt s \<Longrightarrow> reachable rt s"
  by (induction rule: reachable_nanoid.induct) (auto intro: reachable.intros)

lemma reachable_nanoid_run: "list_all nanoid_ok as \<Longrightarrow> reachable_nanoid rt (run rt as)"
proof (induction as rule: rev_induct)
  case Nil
  show ?case by (simp add: run_def reachable_nanoid_init)
next
  case (snoc a as)
  then have "reachable_nanoid rt (run rt as)" and "nanoid_ok a" by simp_all
  from reachable_nanoid_step [OF this] show ?case by (simp add: run_def)
qed

lemma find_in_set: "find P xs = Some x \<Longrightarrow> x \<in> set xs \<and> P x"
  by (induction xs) (auto split: if_splits)

lemmas operation_defs =
  signUp_def signIn_def signOut_def resetPassword_def addReceipt_def removeReceipt_def
  addTransaction_def updateTransaction_def removeTransaction_def upsertBudget_def
  removeBudget_def upgradeToPremium_def downgradeToFree_def addCustomCategory_def
  importTransactions_def updateSettings_def sendAnalyticsEmail_def

lemma exec_receipt_ids:
  assumes "\<forall>x\<in>set (receipts s). receipt_id x \<noteq> []" and "nanoid_ok a"
  shows "\<forall>x\<in>set (receipts (exec rt a s)). receipt_id x \<noteq> []"
  using assms by (cases a) (auto simp: operation_defs Let_def split: option.splits)

lemma exec_budget_ids:
  assumes "\<forall>x\<in>set (budgets s). budget_id x \<noteq> []" and "nanoid_ok a"
  shows "\<forall>x\<in>set (budgets (exec rt a s)). budget_id x \<noteq> []"
  using assms
  by (cases a) (auto simp: operation_defs Let_def split: option.splits dest: find_in_set)

lemma reachable_nanoid_receipt_ids:
  "reachable_nanoid rt s \<Longrightarrow> \<forall>x\<in>set (receipts s). receipt_id x \<noteq> []"
  by (induction rule: reachable_nanoid.induct) (simp add: initial_state_def, rule exec_receipt_ids)

lemma reachable_nanoid_budget_ids:
  "reachable_nanoid rt s \<Longrightarrow> \<forall>x\<in>set (budgets s). budget_id x \<noteq> []"
  by (induction rule: reachable_nanoid.induct) (simp add: initial_state_def, rule exec_budget_ids)

text \<open>
  Where the ids of a list are all different, as ids drawn by \<^verbatim>\<open>nanoid()\<close> are, every record
  is the first one with its id: the one \<^verbatim>\<open>find\<close> returns.
\<close>

lemma unique_is_first:
  assumes "distinct (map f xs)" and "x \<in> set xs"
  shows "\<exists>before after. xs = before @ x # after \<and> (\<forall>y\<in>set before. f y \<noteq> f x)"
proof -
  from assms(2) obtain ys zs where xs: "xs = ys @ x # zs" by (auto dest: split_list)
  with assms(1) have "\<forall>y\<in>set ys. f y \<noteq> f x" by (fastforce simp: image_iff)
  with xs show ?thesis by blast
qed

subsection \<open>C3: \<open>upsertBudget\<close> with a positive limit\<close>

text \<open>
  C3, amended.  For every call of \<open>upsertBudget\<close> with a positive limit (\<open>gt_zero\<close>: a finite
  number above zero, or plus infinity):
  \<^item> when a non-empty id is supplied and no budget has it, the call throws the not-found
    error and the store is the state it was;
  \<^item> when a non-empty id is supplied and \<open>b\<close> is the first budget with it, the call returns
    \<open>b\<close> with the supplied category and limit, with the supplied rollover and alert
    threshold where the call gives them and the previous ones where it omits them; the
    budget list keeps its length and order, with that record in the place of \<open>b\<close> (and of
    any later entry carrying the same id);
  \<^item> when no id is supplied, or the empty string is, the call returns a new record made
    of the arguments, \<open>newId\<close> and \<open>now\<close>, and puts it in front of the budget list.
\<close>

theorem upsertBudget_with_positive_limit:
  assumes "gt_zero limit"
  shows
    "(i \<noteq> [] \<and> (\<forall>x\<in>set (budgets s). budget_id x \<noteq> i) \<longrightarrow>
        upsertBudget newId now (Some i) userId category limit rollover alertThreshold s =
          (Inl (Error ''Budget not found.''), s)) \<and>
     (i \<noteq> [] \<and> budgets s = before @ b # after \<and> (\<forall>x\<in>set before. budget_id x \<noteq> i) \<and>
      budget_id b = i \<longrightarrow>
        upsertBudget newId now (Some i) userId category limit rollover alertThreshold s =
          (Inr (b\<lparr>budget_category := category, budget_limit := limit,
                  budget_rollover := (if rollover = None then budget_rollover b else rollover),
                  budget_alertThreshold :=
                    (if alertThreshold = None then budget_alertThreshold b else alertThreshold)\<rparr>),
           s\<lparr>budgets :=
               before @
               b\<lparr>budget_category := category, budget_limit := limit,
                 budget_rollover := (if rollover = None then budget_rollover b else rollover),
                 budget_alertThreshold :=
                   (if alertThreshold = None then budget_alertThreshold b else alertThreshold)\<rparr> #
               map (\<lambda>x. if budget_id x = i
                         then b\<lparr>budget_category := category, budget_limit := limit,
                                budget_rollover :=
                                  (if rollover = None then budget_rollover b else rollover),
                                budget_alertThreshold :=
                                  (if alertThreshold = None then budget_alertThreshold b
                                   else alertThreshold)\<rparr>
                         else x) after\<rparr>)) \<and>
     (oi = None \<or> oi = Some [] \<longrightarrow>
        upsertBudget newId now oi userId category limit rollover alertThreshold s =
          (Inr \<lparr>budget_id = newId, budget_userId = userId, budget_category = category,
                budget_limit = limit, budget_createdAt = now, budget_rollover = rollover,
                budget_alertThreshold = alertThreshold\<rparr>,
           s\<lparr>budgets :=
               \<lparr>budget_id = newId, budget_userId = userId, budget_category = category,
                budget_limit = limit, budget_createdAt = now, budget_rollover = rollover,
                budget_alertThreshold = alertThreshold\<rparr> # budgets s\<rparr>))"
  using gt_zero_not_le_zero [OF assms]
  by (simp add: upsertBudget_update upsertBudget_not_found upsertBudget_create)

text \<open>
  On the example state: an unknown id, an update of budget \<open>b1\<close> that omits rollover and
  alert threshold (they stay \<open>Some True\<close> and \<open>Some (Num 80)\<close>), and a call without id.
\<close>

theorem upsertBudget_with_positive_limit_witness:
  "gt_zero (Num 250) \<and>
   upsertBudget ''b9'' ''t9'' (Some ''zz'') ''u1'' ''Rent'' (Num 250) None None example_state =
     (Inl (Error ''Budget not found.''), example_state) \<and>
   upsertBudget ''b9'' ''t9'' (Some ''b1'') ''u1'' ''Rent'' (Num 250) None None example_state =
     (Inr ((example_budget ''b1'' ''u1'' ''Rent'' (Some True) (Some (Num 80)))
             \<lparr>budget_limit := Num 250\<rparr>),
      example_state
        \<lparr>budgets :=
           [(example_budget ''b1'' ''u1'' ''Rent'' (Some True) (Some (Num 80)))
              \<lparr>budget_limit := Num 250\<rparr>,
            example_budget ''b2'' ''u1'' ''Food'' None None,
            example_budget ''b3'' ''u2'' ''Travel'' None None]\<rparr>) \<and>
   upsertBudget ''b9'' ''t9'' None ''u1'' ''Rent'' (Num 250) (Some False) None example_state =
     (Inr \<lparr>budget_id = ''b9'', budget_userId = ''u1'', budget_category = ''Rent'',
           budget_limit = Num 250, budget_createdAt = ''t9'', budget_rollover = Some False,
           budget_alertThreshold = None\<rparr>,
      example_state
        \<lparr>budgets :=
           \<lparr>budget_id = ''b9'', budget_userId = ''u1'', budget_category = ''Rent'',
            budget_limit = Num 250, budget_createdAt = ''t9'', budget_rollover = Some False,
            budget_alertThreshold = None\<rparr> # budgets example_state\<rparr>)"
  using upsertBudget_with_positive_limit
      [where limit = "Num 250" and i = "''zz''" and s = example_state and newId = "''b9''"
         and now = "''t9''" and userId = "''u1''" and category = "''Rent''" and rollover = None
         and alertThreshold = None and oi = None]
    upsertBudget_with_positive_limit
      [where limit = "Num 250" and i = "''b1''" and s = example_state and newId = "''b9''"
         and now = "''t9''" and userId = "''u1''" and category = "''Rent''" and rollover = None
         and alertThreshold = None and oi = None and before = "[]"
         and b = "example_budget ''b1'' ''u1'' ''Pets'' (Some True) (Some (Num 80))"
         and after = "[example_budget ''b2'' ''u1'' ''Food'' None None,
                       example_budget ''b3'' ''u2'' ''Travel'' None None]"]
    upsertBudget_with_positive_limit
      [where limit = "Num 250" and s = example_state and newId = "''b9''"
         and now = "''t9''" and userId = "''u1''" and category = "''Rent''"
         and rollover = "Some False" and alertThreshold = None and oi = None]
  by (simp add: example_state_defs)

text \<open>
  The claim as first stated (\<open>if an id is supplied and no budget has that id, the call
  fails\<close>) is false for the empty string: \<^verbatim>\<open>if (id)\<close> takes it for no id, and the call
  creates a budget in the empty store.
\<close>

theorem upsertBudget_empty_id_counterexample:
  "gt_zero (Num 500) \<and> budgets initial_state = [] \<and>
   upsertBudget ''b9'' ''t9'' (Some []) ''u1'' ''Food'' (Num 500) None None initial_state =
     (Inr \<lparr>budget_id = ''b9'', budget_userId = ''u1'', budget_category = ''Food'',
           budget_limit = Num 500, budget_createdAt = ''t9'', budget_rollover = None,
           budget_alertThreshold = None\<rparr>,
      initial_state
        \<lparr>budgets :=
           [\<lparr>budget_id = ''b9'', budget_userId = ''u1'', budget_category = ''Food'',
             budget_limit = Num 500, budget_createdAt = ''t9'', budget_rollover = None,
             budget_alertThreshold = None\<rparr>]\<rparr>) \<and>
   upsertBudget ''b9'' ''t9'' (Some []) ''u1'' ''Food'' (Num 500) None None initial_state \<noteq>
     (Inl (Error ''Budget not found.''), initial_state)"
  by (simp add: upsertBudget_def initial_state_def Let_def)

subsection \<open>C10: an update keeps the owner and the creation time\<close>

text \<open>
  C10.  In every state the store can hold (\<open>reachable_nanoid\<close>; more generally, in every
  state where no budget has the empty string as id), for every call of \<open>upsertBudget\<close> that
  supplies the id of an existing budget, \<open>b\<close> being the first budget with that id: the call
  throws only for a limit that is zero or negative, and then the store is the state it was;
  otherwise the record it returns and stores in the place of \<open>b\<close> has the id, the \<open>userId\<close>
  and the \<open>createdAt\<close> of \<open>b\<close>, and the budget list keeps its length and everything before
  that place.  The \<open>userId\<close> argument (like \<open>newId\<close> and \<open>now\<close>) is ignored: the call with
  any other value returns the same record and leaves the same state.
\<close>

theorem upsertBudget_update_keeps_owner:
  assumes ids: "reachable_nanoid rt s \<or> (\<forall>x\<in>set (budgets s). budget_id x \<noteq> [])"
    and split: "budgets s = before @ b # after"
    and first: "\<forall>x\<in>set before. budget_id x \<noteq> i" "budget_id b = i"
  shows
    "(case upsertBudget newId now (Some i) userId category limit rollover alertThreshold s of
        (Inl e, s') \<Rightarrow> le_zero limit \<and> s' = s
      | (Inr updated, s') \<Rightarrow>
          \<not> le_zero limit \<and>
          budget_id updated = budget_id b \<and>
          budget_userId updated = budget_userId b \<and>
          budget_createdAt updated = budget_createdAt b \<and>
          length (budgets s') = length (budgets s) \<and>
          take (length before) (budgets s') = before \<and>
          budgets s' ! length before = updated) \<and>
     upsertBudget newId' now' (Some i) userId' category limit rollover alertThreshold s =
       upsertBudget newId now (Some i) userId category limit rollover alertThreshold s"
proof (cases "le_zero limit")
  case True
  then show ?thesis by (simp add: upsertBudget_def)
next
  case False
  from ids have "\<forall>x\<in>set (budgets s). budget_id x \<noteq> []"
    using reachable_nanoid_budget_ids by blast
  with split first(2) have ne: "i \<noteq> []" by auto
  show ?thesis
    using False by (simp add: upsertBudget_update [OF False ne split first] nth_append split)
qed

text \<open>
  Ann creates the budgets \<open>b2\<close> and \<open>b1\<close>; Bob (\<open>u2\<close>) passes his own id when he updates
  \<open>b2\<close>: it stays Ann's, with its creation time.
\<close>

lemma budgets_history_state:
  "run ascii_runtime budgets_history =
     initial_state
       \<lparr>budgets :=
          [example_budget ''b1'' ''u1'' ''Pets'' (Some True) (Some (Num 80)),
           example_budget ''b2'' ''u1'' ''Food'' None None]\<rparr>"
  by (simp add: run_def budgets_history_def upsertBudget_def initial_state_def
      example_budget_def Let_def)

theorem upsertBudget_update_keeps_owner_witness:
  "reachable_nanoid ascii_runtime (run ascii_runtime budgets_history) \<and>
   budgets (run ascii_runtime budgets_history) =
     [example_budget ''b1'' ''u1'' ''Pets'' (Some True) (Some (Num 80))] @
     example_budget ''b2'' ''u1'' ''Food'' None None # [] \<and>
   budget_id (example_budget ''b1'' ''u1'' ''Pets'' (Some True) (Some (Num 80))) \<noteq> ''b2'' \<and>
   budget_id (example_budget ''b2'' ''u1'' ''Food'' None None) = ''b2'' \<and>
   budget_userId (example_budget ''b2'' ''u1'' ''Food'' None None) = ''u1'' \<and>
   budget_createdAt (example_budget ''b2'' ''u1'' ''Food'' None None) = ''t4'' \<and>
   (case upsertBudget ''b9'' ''t9'' (Some ''b2'') ''u2'' ''Rent'' (Num 250) None None
           (run ascii_runtime budgets_history)
    of (Inl e, s') \<Rightarrow> False
     | (Inr updated, s') \<Rightarrow>
         budget_id updated = ''b2'' \<and> budget_userId updated = ''u1'' \<and>
         budget_createdAt updated = ''t4'' \<and> length (budgets s') = 2 \<and>
         budgets s' ! 1 = updated) \<and>
   upsertBudget ''b8'' ''t8'' (Some ''b2'') ''u1'' ''Rent'' (Num 250) None None
       (run ascii_runtime budgets_history) =
     upsertBudget ''b9'' ''t9'' (Some ''b2'') ''u2'' ''Rent'' (Num 250) None None
       (run ascii_runtime budgets_history)"
proof -
  let ?s = "run ascii_runtime budgets_history"
  let ?b1 = "example_budget ''b1'' ''u1'' ''Pets'' (Some True) (Some (Num 80))"
  let ?b2 = "example_budget ''b2'' ''u1'' ''Food'' None None"
  have st: "reachable_nanoid ascii_runtime ?s"
    by (rule reachable_nanoid_run) (simp add: budgets_history_def)
  then have h1: "reachable_nanoid ascii_runtime ?s \<or> (\<forall>x\<in>set (budgets ?s). budget_id x \<noteq> [])"
    by (rule disjI1)
  have h2: "budgets ?s = [?b1] @ ?b2 # []" by (simp add: budgets_history_state)
  have h3: "\<forall>x\<in>set [?b1]. budget_id x \<noteq> ''b2''" by (simp add: example_budget_def)
  have h4: "budget_id ?b2 = ''b2''" by (simp add: example_budget_def)
  note t = upsertBudget_update_keeps_owner
      [OF h1 h2 h3 h4, where newId = "''b9''" and now = "''t9''" and userId = "''u2''"
         and category = "''Rent''" and limit = "Num 250" and rollover = None
         and alertThreshold = None and newId' = "''b8''" and now' = "''t8''"
         and userId' = "''u1''"]
  have 5: "budget_userId ?b2 = ''u1''" "budget_createdAt ?b2 = ''t4''"
    by (simp_all add: example_budget_def)
  from t st h2 h3 h4 5 show ?thesis
    by (simp split: prod.splits sum.splits)
qed

subsection \<open>Finding a user by email\<close>

lemma selectUserByEmail_first:
  assumes "us = before @ u # after" and "\<forall>x\<in>set before. \<not> matches_email rt email x"
    and "matches_email rt email u"
  shows "selectUserByEmail rt us email = Some u"
  unfolding selectUserByEmail_def
  using assms by (intro find_first_match [where before = before and after = after])
    (simp_all add: matches_email_def)

lemma selectUserByEmail_none:
  "\<forall>x\<in>set us. \<not> matches_email rt email x \<Longrightarrow> selectUserByEmail rt us email = None"
  unfolding selectUserByEmail_def by (rule find_no_match) (simp add: matches_email_def)

lemma selectUserByEmail_some:
  "u \<in> set us \<Longrightarrow> matches_email rt email u \<Longrightarrow> \<exists>v. selectUserByEmail rt us email = Some v"
  unfolding selectUserByEmail_def matches_email_def
  by (cases "find (\<lambda>user. toLowerCase rt (trim rt (user_email user)) = toLowerCase rt (trim rt email)) us")
    (auto simp: find_None_iff)

lemmas ascii_defs = ascii_runtime_def ascii_trim_def ascii_space_def ascii_lower_char_def

subsection \<open>The example runtime normalises once and for all\<close>

text \<open>
  Trimming and lower-casing an email that \<open>ascii_runtime\<close> has trimmed and lower-cased
  changes nothing, for every string: the runtime fact that C5 relies on.
\<close>

lemma ascii_lower_char_idem: "ascii_lower_char (ascii_lower_char c) = ascii_lower_char c"
  by (simp add: ascii_lower_char_def split: option.splits)

lemma ascii_space_lower: "ascii_space (ascii_lower_char c) = ascii_space c"
  by (simp add: ascii_lower_char_def ascii_space_def split: option.splits)

lemma dropWhile_fixed: "xs = [] \<or> \<not> P (hd xs) \<Longrightarrow> dropWhile P xs = xs"
  by (cases xs) auto

lemma dropWhile_head: "dropWhile P xs = [] \<or> \<not> P (hd (dropWhile P xs))"
  by (induction xs) auto

lemma drop_trailing_prefix: "xs = rev (dropWhile P (rev xs)) @ rev (takeWhile P (rev xs))"
  by (metis rev_append rev_rev_ident takeWhile_dropWhile_id)

lemma drop_trailing_head:
  assumes "xs = [] \<or> \<not> P (hd xs)"
  shows "rev (dropWhile P (rev xs)) = [] \<or> \<not> P (hd (rev (dropWhile P (rev xs))))"
proof (cases "rev (dropWhile P (rev xs))")
  case Nil
  then show ?thesis by simp
next
  case (Cons z zs)
  with drop_trailing_prefix [of xs P] have "xs = z # zs @ rev (takeWhile P (rev xs))" by simp
  then have "hd xs = z" and "xs \<noteq> []" by (metis list.sel(1), metis list.discI)
  with assms Cons show ?thesis by simp
qed

lemma ascii_trim_fixed: "dropWhile ascii_space (ascii_trim e) = ascii_trim e"
  unfolding ascii_trim_def
  by (intro dropWhile_fixed drop_trailing_head dropWhile_head)

lemma ascii_trim_idem: "ascii_trim (ascii_trim e) = ascii_trim e"
proof -
  have "ascii_trim (ascii_trim e) = rev (dropWhile ascii_space (rev (ascii_trim e)))"
    by (simp add: ascii_trim_def [of "ascii_trim e"] ascii_trim_fixed)
  also have "\<dots> = ascii_trim e"
    by (simp add: ascii_trim_def)
  finally show ?thesis .
qed

lemma ascii_trim_lower: "ascii_trim (map ascii_lower_char e) = map ascii_lower_char (ascii_trim e)"
proof -
  have "ascii_space \<circ> ascii_lower_char = ascii_space"
    by (rule ext) (simp add: ascii_space_lower)
  then show ?thesis
    by (simp add: ascii_trim_def dropWhile_map rev_map)
qed

lemma ascii_runtime_normalize_idem:
  "toLowerCase ascii_runtime (trim ascii_runtime (toLowerCase ascii_runtime (trim ascii_runtime e))) =
   toLowerCase ascii_runtime (trim ascii_runtime e)"
  by (simp add: ascii_runtime_def ascii_trim_lower ascii_trim_idem ascii_lower_char_idem)

subsection \<open>C5: signing up with an email that is taken\<close>

text \<open>
  C5.  When the state holds a user whose stored email is the given email trimmed and
  lower-cased, \<open>signUp\<close> with that email throws the conflict error, whatever the name and
  the password hash are, and the store is the state it was: the user list and the current
  user id are unchanged.  The third hypothesis is about the runtime and not about the
  store: trimming and lower-casing a string that is already trimmed and lower-cased
  changes nothing, as is the case for the two JavaScript methods.
\<close>

theorem signUp_conflict:
  assumes "u \<in> set (users s)"
    and "user_email u = toLowerCase rt (trim rt email)"
    and "toLowerCase rt (trim rt (toLowerCase rt (trim rt email))) = toLowerCase rt (trim rt email)"
  shows "signUp rt newId now email name passwordHash s =
           (Inl (Error ''An account already exists for this email address.''), s)"
proof -
  from assms(2,3) have "matches_email rt email u" by (simp add: matches_email_def)
  with assms(1) obtain v where "selectUserByEmail rt (users s) email = Some v"
    using selectUserByEmail_some by blast
  then show ?thesis by (simp add: signUp_def)
qed

text \<open>Ann's email, with other capitals, padding, another name and another hash.\<close>

theorem signUp_conflict_witness:
  "example_ann \<in> set (users example_state) \<and>
   user_email example_ann = toLowerCase ascii_runtime (trim ascii_runtime '' Ann@X.com '') \<and>
   toLowerCase ascii_runtime
     (trim ascii_runtime (toLowerCase ascii_runtime (trim ascii_runtime '' Ann@X.com ''))) =
     toLowerCase ascii_runtime (trim ascii_runtime '' Ann@X.com '') \<and>
   signUp ascii_runtime ''u3'' ''t7'' '' Ann@X.com '' ''Annabel'' ''h3'' example_state =
     (Inl (Error ''An account already exists for this email address.''), example_state)"
proof -
  have 1: "example_ann \<in> set (users example_state)"
    by (simp add: example_state_def)
  have 2: "user_email example_ann = toLowerCase ascii_runtime (trim ascii_runtime '' Ann@X.com '')"
    by (simp add: example_ann_def ascii_defs)
  have 3: "toLowerCase ascii_runtime
     (trim ascii_runtime (toLowerCase ascii_runtime (trim ascii_runtime '' Ann@X.com ''))) =
     toLowerCase ascii_runtime (trim ascii_runtime '' Ann@X.com '')"
    by (simp add: ascii_defs)
  from 1 2 3 signUp_conflict [OF 1 2 3, of "''u3''" "''t7''" "''Annabel''" "''h3''"]
  show ?thesis by blast
qed

subsection \<open>C6: signing in\<close>

text \<open>
  C6.  \<open>signIn\<close> throws the authentication error, and leaves the store the state it was
  (the current user id included), when no user matches the email (compared trimmed and
  lower-cased) and when the first user that matches has a stored password hash other than
  the supplied one.  When the hashes are equal it returns that user and sets the current
  user id to that user's id, changing nothing else.
\<close>

theorem signIn_effect:
  "((\<forall>u\<in>set (users s). \<not> matches_email rt email u) \<longrightarrow>
      signIn rt email passwordHash s = (Inl (Error ''Invalid email or password.''), s)) \<and>
   (users s = before @ u # after \<and> (\<forall>x\<in>set before. \<not> matches_email rt email x) \<and>
    matches_email rt email u \<longrightarrow>
      signIn rt email passwordHash s =
        (if user_passwordHash u = passwordHash
         then (Inr u, s\<lparr>currentUserId := Some (user_id u)\<rparr>)
         else (Inl (Error ''Invalid email or password.''), s)))"
  by (auto simp: signIn_def selectUserByEmail_none
      selectUserByEmail_first [where before = before and after = after])

text \<open>An unknown email, Bob's email with Ann's hash, Bob's email with Bob's hash.\<close>

theorem signIn_effect_witness:
  "signIn ascii_runtime ''carol@x.com'' ''h1'' example_state =
     (Inl (Error ''Invalid email or password.''), example_state) \<and>
   signIn ascii_runtime '' BOB@x.com'' ''h1'' example_state =
     (Inl (Error ''Invalid email or password.''), example_state) \<and>
   signIn ascii_runtime '' BOB@x.com'' ''h2'' example_state =
     (Inr example_bob, example_state\<lparr>currentUserId := Some ''u2''\<rparr>)"
  using signIn_effect
      [where s = example_state and rt = ascii_runtime and email = "''carol@x.com''"
         and passwordHash = "''h1''"]
    signIn_effect
      [where s = example_state and rt = ascii_runtime and email = "'' BOB@x.com''"
         and passwordHash = "''h1''" and before = "[example_ann]" and u = example_bob
         and after = "[]"]
    signIn_effect
      [where s = example_state and rt = ascii_runtime and email = "'' BOB@x.com''"
         and passwordHash = "''h2''" and before = "[example_ann]" and u = example_bob
         and after = "[]"]
  by (simp add: matches_email_def example_state_def example_ann_def example_bob_def ascii_defs)

subsection \<open>C7: removing a transaction\<close>

lemma filter_no_match: "\<forall>y\<in>set xs. P y \<Longrightarrow> filter P xs = xs"
  by (induction xs) auto

text \<open>
  C7.  In every state the store can hold (\<open>reachable_nanoid\<close>; more generally, in every
  state where no receipt has the empty string as id), \<open>removeTransaction i\<close> never throws,
  and with \<open>t\<close> the first transaction whose id is \<open>i\<close>:
  \<^item> when \<open>t\<close> has a receipt id \<open>r\<close> (any string), the store afterwards holds no transaction
    with id \<open>i\<close> and no receipt with id \<open>r\<close>, and is otherwise as it was;
  \<^item> when \<open>t\<close> has no receipt id, the store afterwards holds no transaction with id \<open>i\<close> and
    is otherwise as it was: the receipt list is the one it was;
  \<^item> when no transaction has id \<open>i\<close>, the store is the state it was.
\<close>

theorem removeTransaction_effect:
  assumes "reachable_nanoid rt s \<or> (\<forall>x\<in>set (receipts s). receipt_id x \<noteq> [])"
  shows
    "fst (removeTransaction i s) = Inr () \<and>
     (transactions s = before @ t # after \<and> (\<forall>x\<in>set before. tx_id x \<noteq> i) \<and> tx_id t = i \<and>
      tx_receiptId t = Some r \<longrightarrow>
        snd (removeTransaction i s) =
          s\<lparr>receipts := filter (\<lambda>x. receipt_id x \<noteq> r) (receipts s),
            transactions := filter (\<lambda>x. tx_id x \<noteq> i) (transactions s)\<rparr>) \<and>
     (transactions s = before @ t # after \<and> (\<forall>x\<in>set before. tx_id x \<noteq> i) \<and> tx_id t = i \<and>
      tx_receiptId t = None \<longrightarrow>
        snd (removeTransaction i s) =
          s\<lparr>transactions := filter (\<lambda>x. tx_id x \<noteq> i) (transactions s)\<rparr>) \<and>
     ((\<forall>x\<in>set (transactions s). tx_id x \<noteq> i) \<longrightarrow> snd (removeTransaction i s) = s)"
proof (intro conjI impI)
  from assms have ids: "\<forall>x\<in>set (receipts s). receipt_id x \<noteq> []"
    using reachable_nanoid_receipt_ids by blast
  show "fst (removeTransaction i s) = Inr ()"
    by (simp add: removeTransaction_def Let_def)
  {
    assume h: "transactions s = before @ t # after \<and> (\<forall>x\<in>set before. tx_id x \<noteq> i) \<and>
      tx_id t = i \<and> tx_receiptId t = Some r"
    then have f: "find (\<lambda>tx. tx_id tx = i) (transactions s) = Some t"
      by (intro find_first_match [where before = before and after = after]) simp_all
    show "snd (removeTransaction i s) =
          s\<lparr>receipts := filter (\<lambda>x. receipt_id x \<noteq> r) (receipts s),
            transactions := filter (\<lambda>x. tx_id x \<noteq> i) (transactions s)\<rparr>"
    proof (cases "r = []")
      case True
      with ids have "filter (\<lambda>x. receipt_id x \<noteq> r) (receipts s) = receipts s"
        by (intro filter_no_match) simp
      with True f h show ?thesis by (simp add: removeTransaction_def Let_def)
    next
      case False
      with f h show ?thesis by (simp add: removeTransaction_def Let_def)
    qed
  next
    assume h: "transactions s = before @ t # after \<and> (\<forall>x\<in>set before. tx_id x \<noteq> i) \<and>
      tx_id t = i \<and> tx_receiptId t = None"
    then have "find (\<lambda>tx. tx_id tx = i) (transactions s) = Some t"
      by (intro find_first_match [where before = before and after = after]) simp_all
    with h show "snd (removeTransaction i s) =
          s\<lparr>transactions := filter (\<lambda>x. tx_id x \<noteq> i) (transactions s)\<rparr>"
      by (simp add: removeTransaction_def Let_def)
  next
    assume h: "\<forall>x\<in>set (transactions s). tx_id x \<noteq> i"
    then have "find (\<lambda>tx. tx_id tx = i) (transactions s) = None"
      by (simp add: find_no_match)
    moreover from h have "filter (\<lambda>x. tx_id x \<noteq> i) (transactions s) = transactions s"
      by (rule filter_no_match)
    ultimately show "snd (removeTransaction i s) = s"
      by (simp add: removeTransaction_def Let_def)
  }
qed

text \<open>
  After the first history: \<open>x1\<close> carries receipt \<open>r1\<close>, \<open>x2\<close> carries none, \<open>x3\<close> carries the
  empty string (no receipt has it, so none is removed), \<open>zz\<close> is no transaction.
\<close>

lemma receipts_history_state:
  "run ascii_runtime receipts_history =
     initial_state
       \<lparr>receipts := [example_receipt ''r1''],
        transactions :=
          [example_tx ''x3'' ''u2'' ''Pets'' (Some []),
           example_tx ''x2'' ''u1'' ''Food'' None,
           example_tx ''x1'' ''u1'' ''Pets'' (Some ''r1'')]\<rparr>"
  by (simp add: run_def receipts_history_def addReceipt_def addTransaction_def initial_state_def
      example_receipt_def example_tx_def Let_def)

theorem removeTransaction_effect_witness:
  "reachable_nanoid ascii_runtime (run ascii_runtime receipts_history) \<and>
   receipts (run ascii_runtime receipts_history) = [example_receipt ''r1''] \<and>
   transactions (run ascii_runtime receipts_history) =
     [example_tx ''x3'' ''u2'' ''Pets'' (Some []), example_tx ''x2'' ''u1'' ''Food'' None] @
     example_tx ''x1'' ''u1'' ''Pets'' (Some ''r1'') # [] \<and>
   snd (removeTransaction ''x1'' (run ascii_runtime receipts_history)) =
     (run ascii_runtime receipts_history)
       \<lparr>receipts := [],
        transactions :=
          [example_tx ''x3'' ''u2'' ''Pets'' (Some []), example_tx ''x2'' ''u1'' ''Food'' None]\<rparr> \<and>
   snd (removeTransaction ''x2'' (run ascii_runtime receipts_history)) =
     (run ascii_runtime receipts_history)
       \<lparr>transactions :=
          [example_tx ''x3'' ''u2'' ''Pets'' (Some []),
           example_tx ''x1'' ''u1'' ''Pets'' (Some ''r1'')]\<rparr> \<and>
   snd (removeTransaction ''x3'' (run ascii_runtime receipts_history)) =
     (run ascii_runtime receipts_history)
       \<lparr>transactions :=
          [example_tx ''x2'' ''u1'' ''Food'' None,
           example_tx ''x1'' ''u1'' ''Pets'' (Some ''r1'')]\<rparr> \<and>
   snd (removeTransaction ''zz'' (run ascii_runtime receipts_history)) =
     run ascii_runtime receipts_history"
proof -
  let ?s = "run ascii_runtime receipts_history"
  let ?x1 = "example_tx ''x1'' ''u1'' ''Pets'' (Some ''r1'')"
  let ?x2 = "example_tx ''x2'' ''u1'' ''Food'' None"
  let ?x3 = "example_tx ''x3'' ''u2'' ''Pets'' (Some [])"
  have st: "reachable_nanoid ascii_runtime ?s"
    by (rule reachable_nanoid_run) (simp add: receipts_history_def)
  then have hyp: "reachable_nanoid ascii_runtime ?s \<or> (\<forall>x\<in>set (receipts ?s). receipt_id x \<noteq> [])"
    by (rule disjI1)
  have txs: "transactions ?s = [?x3, ?x2] @ ?x1 # []" and rcs: "receipts ?s = [example_receipt ''r1'']"
    by (simp_all add: receipts_history_state)
  have 1: "snd (removeTransaction ''x1'' ?s) =
      ?s\<lparr>receipts := filter (\<lambda>x. receipt_id x \<noteq> ''r1'') (receipts ?s),
         transactions := filter (\<lambda>x. tx_id x \<noteq> ''x1'') (transactions ?s)\<rparr>"
    using removeTransaction_effect
        [OF hyp, where i = "''x1''" and before = "[?x3, ?x2]" and t = ?x1 and after = "[]"
           and r = "''r1''"]
      txs by (simp add: example_tx_def)
  have 2: "snd (removeTransaction ''x2'' ?s) =
      ?s\<lparr>transactions := filter (\<lambda>x. tx_id x \<noteq> ''x2'') (transactions ?s)\<rparr>"
    using removeTransaction_effect
        [OF hyp, where i = "''x2''" and before = "[?x3]" and t = ?x2 and after = "[?x1]"]
      txs by (simp add: example_tx_def)
  have 3: "snd (removeTransaction ''x3'' ?s) =
      ?s\<lparr>receipts := filter (\<lambda>x. receipt_id x \<noteq> []) (receipts ?s),
         transactions := filter (\<lambda>x. tx_id x \<noteq> ''x3'') (transactions ?s)\<rparr>"
    using removeTransaction_effect
        [OF hyp, where i = "''x3''" and before = "[]" and t = ?x3 and after = "[?x2, ?x1]"
           and r = "[]"]
      txs by (simp add: example_tx_def)
  have 4: "snd (removeTransaction ''zz'' ?s) = ?s"
    using removeTransaction_effect [OF hyp, where i = "''zz''"] txs
    by (simp add: example_tx_def)
  show ?thesis
    unfolding 1 2 3 4
    using st by (simp add: receipts_history_state example_tx_def example_receipt_def)
qed

subsection \<open>C8: the categories after an upgrade\<close>

lemma distinct_DEFAULT_CATEGORIES: "distinct DEFAULT_CATEGORIES"
  by (simp add: DEFAULT_CATEGORIES_def)

lemma distinct_starter_categories: "distinct starter_categories"
  by (simp add: starter_categories_def distinct_DEFAULT_CATEGORIES)

lemma distinct_categories_reachable:
  "reachable rt s \<Longrightarrow> users_all (\<lambda>u. distinct (user_categories u)) s"
  by (erule reachable_users_all)
    (auto simp: distinct_DEFAULT_CATEGORIES distinct_starter_categories)

lemma filter_missing_twice:
  "filter (\<lambda>c. c \<notin> set (cs @ filter (\<lambda>c. c \<notin> set cs) ds)) ds = []"
  by (auto simp: filter_empty_conv)

text \<open>
  C8.  \<open>upgradeToPremium userId\<close> never throws and keeps the user list as long as it was.
  For every record with the given id, the new category list is the old one followed by the
  default categories that were missing from it, in the order of the default list: the
  existing categories are kept, and as a set the new list is the union of the old one and
  the nine defaults.  A second call in a row changes the category list no further.  After
  the two calls the list has no duplicate entries, in every state the store can reach
  (\<open>reachable\<close>) and, more generally, in every state where the list had none before.
\<close>

theorem upgradeToPremium_categories:
  "fst (upgradeToPremium renewal userId s) = Inr () \<and>
   length (users (snd (upgradeToPremium renewal userId s))) = length (users s) \<and>
   (\<forall>k<length (users s).
      user_id (users s ! k) = userId \<longrightarrow>
      user_id (users (snd (upgradeToPremium renewal userId s)) ! k) = userId \<and>
      user_categories (users (snd (upgradeToPremium renewal userId s)) ! k) =
        user_categories (users s ! k) @
        filter (\<lambda>c. c \<notin> set (user_categories (users s ! k))) DEFAULT_CATEGORIES \<and>
      set (user_categories (users (snd (upgradeToPremium renewal userId s)) ! k)) =
        set (user_categories (users s ! k)) \<union> set DEFAULT_CATEGORIES \<and>
      user_categories
        (users (snd (upgradeToPremium renewal' userId (snd (upgradeToPremium renewal userId s))))
           ! k) =
        user_categories (users (snd (upgradeToPremium renewal userId s)) ! k) \<and>
      (distinct (user_categories (users s ! k)) \<or> reachable rt s \<longrightarrow>
         distinct
           (user_categories
              (users
                 (snd (upgradeToPremium renewal' userId (snd (upgradeToPremium renewal userId s))))
                 ! k))))"
proof (intro conjI allI impI)
  fix k
  assume k: "k < length (users s)" and u: "user_id (users s ! k) = userId"
  let ?cs = "user_categories (users s ! k)"
  let ?s1 = "snd (upgradeToPremium renewal userId s)"
  let ?s2 = "snd (upgradeToPremium renewal' userId ?s1)"
  show id1: "user_id (users ?s1 ! k) = userId"
    using k u by (simp add: upgradeToPremium_def)
  show c1: "user_categories (users ?s1 ! k) = ?cs @ filter (\<lambda>c. c \<notin> set ?cs) DEFAULT_CATEGORIES"
    using k u by (simp add: upgradeToPremium_def)
  show "set (user_categories (users ?s1 ! k)) = set ?cs \<union> set DEFAULT_CATEGORIES"
    unfolding c1 by auto
  have k1: "k < length (users ?s1)"
    using k by (simp add: upgradeToPremium_def)
  have "user_categories (users ?s2 ! k) =
        user_categories (users ?s1 ! k) @
        filter (\<lambda>c. c \<notin> set (user_categories (users ?s1 ! k))) DEFAULT_CATEGORIES"
    using k1 id1 by (simp add: upgradeToPremium_def [of renewal'])
  then show c2: "user_categories (users ?s2 ! k) = user_categories (users ?s1 ! k)"
    unfolding c1 by (simp only: filter_missing_twice append_Nil2)
  assume "distinct ?cs \<or> reachable rt s"
  then have "distinct ?cs"
    using distinct_categories_reachable [of rt s] k by (auto simp: users_all_def)
  then show "distinct (user_categories (users ?s2 ! k))"
    unfolding c2 c1 by (auto simp: distinct_DEFAULT_CATEGORIES)
qed (simp_all add: upgradeToPremium_def)

text \<open>
  Ann signs up and adds \<open>Pets\<close>; the upgrade appends the three defaults she lacked, and a
  second upgrade changes nothing.
\<close>

lemma categories_history_state:
  "users (run ascii_runtime categories_history) =
     [\<lparr>user_id = ''u1'', user_email = ''ann@x.com'', user_name = ''Ann'',
       user_passwordHash = ''h1'', user_createdAt = ''t0'',
       user_subscription = \<lparr>tier = Free, renewalDate = None, status = Active\<rparr>,
       user_settings = default_settings,
       user_categories =
         [''Salary'', ''Rent'', ''Food'', ''Transportation'', ''Entertainment'', ''Utilities'',
          ''Pets'']\<rparr>]"
  by (simp add: run_def categories_history_def addCustomCategory_def example_defs
      default_settings_def)

theorem upgradeToPremium_categories_witness:
  "reachable ascii_runtime (run ascii_runtime categories_history) \<and>
   user_id (users (run ascii_runtime categories_history) ! 0) = ''u1'' \<and>
   user_categories (users (run ascii_runtime categories_history) ! 0) =
     [''Salary'', ''Rent'', ''Food'', ''Transportation'', ''Entertainment'', ''Utilities'',
      ''Pets''] \<and>
   user_categories
     (users (snd (upgradeToPremium ''t8'' ''u1'' (run ascii_runtime categories_history))) ! 0) =
     [''Salary'', ''Rent'', ''Food'', ''Transportation'', ''Entertainment'', ''Utilities'',
      ''Pets'', ''Healthcare'', ''Travel'', ''Savings''] \<and>
   user_categories
     (users
        (snd (upgradeToPremium ''t9'' ''u1''
           (snd (upgradeToPremium ''t8'' ''u1'' (run ascii_runtime categories_history))))) ! 0) =
     [''Salary'', ''Rent'', ''Food'', ''Transportation'', ''Entertainment'', ''Utilities'',
      ''Pets'', ''Healthcare'', ''Travel'', ''Savings''] \<and>
   distinct
     (user_categories
        (users
           (snd (upgradeToPremium ''t9'' ''u1''
              (snd (upgradeToPremium ''t8'' ''u1'' (run ascii_runtime categories_history)))))
           ! 0))"
  using upgradeToPremium_categories
      [where renewal = "''t8''" and renewal' = "''t9''" and userId = "''u1''"
         and s = "run ascii_runtime categories_history" and rt = ascii_runtime]
    reachable_run [of ascii_runtime categories_history]
  by (simp add: categories_history_state DEFAULT_CATEGORIES_def)

subsection \<open>C9: adding a custom category\<close>

text \<open>
  C9.  \<open>addCustomCategory userId category\<close> throws the validation error, leaving the store
  the state it was, when the trimmed name is empty.  Otherwise it returns, whatever the
  tier of the user is, and changes the user list only: a record gets the trimmed name
  appended to its categories exactly when its id is the given one and the trimmed name is
  not in its list yet, and stays as it was otherwise.  So when no user has the given id,
  or every such user already has the name, the store is the state it was.
\<close>

theorem addCustomCategory_effect:
  "(trim rt category = [] \<longrightarrow>
      addCustomCategory rt userId category s =
        (Inl (Error ''Category name cannot be empty.''), s)) \<and>
   (trim rt category \<noteq> [] \<longrightarrow>
      fst (addCustomCategory rt userId category s) = Inr () \<and>
      receipts (snd (addCustomCategory rt userId category s)) = receipts s \<and>
      transactions (snd (addCustomCategory rt userId category s)) = transactions s \<and>
      budgets (snd (addCustomCategory rt userId category s)) = budgets s \<and>
      analyticsLog (snd (addCustomCategory rt userId category s)) = analyticsLog s \<and>
      currentUserId (snd (addCustomCategory rt userId category s)) = currentUserId s \<and>
      length (users (snd (addCustomCategory rt userId category s))) = length (users s) \<and>
      (\<forall>k<length (users s).
         users (snd (addCustomCategory rt userId category s)) ! k =
           (if user_id (users s ! k) = userId \<and>
               trim rt category \<notin> set (user_categories (users s ! k))
            then (users s ! k)
                   \<lparr>user_categories := user_categories (users s ! k) @ [trim rt category]\<rparr>
            else users s ! k)) \<and>
      ((\<forall>u\<in>set (users s). user_id u = userId \<longrightarrow> trim rt category \<in> set (user_categories u)) \<longrightarrow>
         snd (addCustomCategory rt userId category s) = s))"
proof (intro conjI impI)
  assume ne: "trim rt category \<noteq> []"
    and h: "\<forall>u\<in>set (users s). user_id u = userId \<longrightarrow> trim rt category \<in> set (user_categories u)"
  have "map (\<lambda>user.
               if user_id user = userId \<and> trim rt category \<notin> set (user_categories user)
               then user\<lparr>user_categories := user_categories user @ [trim rt category]\<rparr>
               else user) (users s) = users s"
    by (rule map_if_no_match) (use h in auto)
  with ne show "snd (addCustomCategory rt userId category s) = s"
    by (simp add: addCustomCategory_def Let_def)
qed (simp_all add: addCustomCategory_def Let_def)

text \<open>
  A blank name; Bob, on the free tier, adds \<open>Pets\<close>; Ann already has \<open>Pets\<close>; nobody has
  the id \<open>u7\<close>.
\<close>

lemma trim_examples:
  "trim ascii_runtime ''   '' = []"
  "trim ascii_runtime '' Pets '' = ''Pets''"
  "trim ascii_runtime ''Pets'' = ''Pets''"
  by (simp_all add: ascii_defs)

theorem addCustomCategory_effect_witness:
  "trim ascii_runtime ''   '' = [] \<and>
   addCustomCategory ascii_runtime ''u2'' ''   '' example_state =
     (Inl (Error ''Category name cannot be empty.''), example_state) \<and>
   trim ascii_runtime '' Pets '' = ''Pets'' \<and>
   tier (user_subscription example_bob) = Free \<and>
   users example_state ! 1 = example_bob \<and>
   fst (addCustomCategory ascii_runtime ''u2'' '' Pets '' example_state) = Inr () \<and>
   users (snd (addCustomCategory ascii_runtime ''u2'' '' Pets '' example_state)) ! 0 =
     example_ann \<and>
   users (snd (addCustomCategory ascii_runtime ''u2'' '' Pets '' example_state)) ! 1 =
     example_bob
       \<lparr>user_categories :=
          [''Salary'', ''Rent'', ''Food'', ''Transportation'', ''Entertainment'', ''Utilities'',
           ''Pets'']\<rparr> \<and>
   snd (addCustomCategory ascii_runtime ''u1'' ''Pets'' example_state) = example_state \<and>
   snd (addCustomCategory ascii_runtime ''u7'' ''Pets'' example_state) = example_state"
proof -
  have 1: "addCustomCategory ascii_runtime ''u2'' ''   '' example_state =
     (Inl (Error ''Category name cannot be empty.''), example_state)"
    using addCustomCategory_effect
      [where rt = ascii_runtime and userId = "''u2''" and category = "''   ''"
         and s = example_state]
    by (simp add: trim_examples)
  have 2: "snd (addCustomCategory ascii_runtime ''u1'' ''Pets'' example_state) = example_state"
    using addCustomCategory_effect
      [where rt = ascii_runtime and userId = "''u1''" and category = "''Pets''"
         and s = example_state]
    by (simp add: trim_examples example_state_def example_ann_def example_bob_def)
  have 3: "snd (addCustomCategory ascii_runtime ''u7'' ''Pets'' example_state) = example_state"
    using addCustomCategory_effect
      [where rt = ascii_runtime and userId = "''u7''" and category = "''Pets''"
         and s = example_state]
    by (simp add: trim_examples example_state_def example_ann_def example_bob_def)
  have 4: "fst (addCustomCategory ascii_runtime ''u2'' '' Pets '' example_state) = Inr () \<and>
     users (snd (addCustomCategory ascii_runtime ''u2'' '' Pets '' example_state)) ! 0 =
       example_ann \<and>
     users (snd (addCustomCategory ascii_runtime ''u2'' '' Pets '' example_state)) ! 1 =
       example_bob
         \<lparr>user_categories :=
            [''Salary'', ''Rent'', ''Food'', ''Transportation'', ''Entertainment'',
             ''Utilities'', ''Pets'']\<rparr>"
    using addCustomCategory_effect
      [where rt = ascii_runtime and userId = "''u2''" and category = "'' Pets ''"
         and s = example_state]
    by (simp add: trim_examples example_state_def example_ann_def example_bob_def)
  from 1 2 3 4 show ?thesis
    by (simp add: trim_examples example_state_def example_bob_def)
qed

end
